theory Spec2Isabelle
  imports Complex_Main
begin

section \<open>Python values, exceptions and NumPy helpers\<close>

text \<open>
  The module \<^verbatim>\<open>nrv/CL_postprocessing.py\<close> works on floating-point arrays.  Python
  integers are modelled as \<^typ>\<open>int\<close>, one-dimensional arrays and lists as HOL lists,
  and a raised exception as the left injection of a sum.  The queries compare and select
  the floats they read; for them a float is the real number it denotes
  (\<^typ>\<open>real\<close>).  The spike detector also multiplies, subtracts and truncates floats:
  it is modelled in exact arithmetic first and then over an arbitrary arithmetic, of
  which the exact one is an instance.
\<close>

datatype error = IndexError | KeyError | ValueError | ZeroDivisionError | NameError | TypeError

definition ebind :: "error + 'a \<Rightarrow> ('a \<Rightarrow> error + 'b) \<Rightarrow> error + 'b" where
  "ebind m f = (case m of Inl e \<Rightarrow> Inl e | Inr v \<Rightarrow> f v)"

text \<open>\<^verbatim>\<open>xs[k]\<close> for an integer \<open>k\<close>: negative indices count from the end.\<close>

definition py_index :: "'a list \<Rightarrow> int \<Rightarrow> error + 'a" where
  "py_index xs k =
     (let n = int (length xs) in
      if 0 \<le> k \<and> k < n then Inr (xs ! nat k)
      else if - n \<le> k \<and> k < 0 then Inr (xs ! nat (k + n))
      else Inl IndexError)"

text \<open>\<^verbatim>\<open>int(r)\<close> of a float truncates toward zero.\<close>

definition py_int :: "real \<Rightarrow> int" where
  "py_int r = (if 0 \<le> r then \<lfloor>r\<rfloor> else \<lceil>r\<rceil>)"

text \<open>\<^verbatim>\<open>a / b\<close> on Python floats (and in numba's default error model).\<close>

definition py_div :: "real \<Rightarrow> real \<Rightarrow> error + real" where
  "py_div a b = (if b = 0 then Inl ZeroDivisionError else Inr (a / b))"

text \<open>\<^verbatim>\<open>range(a, b)\<close>.\<close>

definition py_range :: "int \<Rightarrow> int \<Rightarrow> int list" where
  "py_range a b = [a..b - 1]"

text \<open>A \<^verbatim>\<open>for\<close> loop whose body may raise: the first exception ends the loop.\<close>

fun for_each :: "'a list \<Rightarrow> ('a \<Rightarrow> 's \<Rightarrow> error + 's) \<Rightarrow> 's \<Rightarrow> error + 's" where
  "for_each [] body s = Inr s"
| "for_each (a # as) body s =
     (case body a s of Inl e \<Rightarrow> Inl e | Inr s' \<Rightarrow> for_each as body s')"

section \<open>Spike counter\<close>

text \<open>
  \<^verbatim>\<open>
  def count_spike(onset_position):
      if len(onset_position)==0:
          spike_number=0
          return 0
      else:
          spike_number=1
          for i in range(len(onset_position)-1):
              if onset_position[i]==min(onset_position):
                  if onset_position[i]==onset_position[i+1]:
                      spike_number=spike_number+1
      return spike_number
  \<close>
  The builtin \<^verbatim>\<open>min\<close> raises \<^verbatim>\<open>ValueError\<close> on an empty sequence.
\<close>

fun py_min :: "real list \<Rightarrow> error + real" where
  "py_min [] = Inl ValueError"
| "py_min (v # vs) = Inr (fold min vs v)"

definition count_spike_body :: "real list \<Rightarrow> int \<Rightarrow> int \<Rightarrow> error + int" where
  "count_spike_body onset_position i spike_number =
     ebind (py_index onset_position i) (\<lambda>a.
     ebind (py_min onset_position) (\<lambda>m.
       if a = m then
         ebind (py_index onset_position i) (\<lambda>b.
         ebind (py_index onset_position (i + 1)) (\<lambda>c.
           if b = c then Inr (spike_number + 1) else Inr spike_number))
       else Inr spike_number))"

definition count_spike :: "real list \<Rightarrow> error + int" where
  "count_spike onset_position =
     (if length onset_position = 0 then Inr 0
      else for_each (py_range 0 (int (length onset_position) - 1))
             (count_spike_body onset_position) 1)"

section \<open>Spike detector\<close>

text \<open>
  The four output lists of \<^verbatim>\<open>spike_detection\<close>, which \<^verbatim>\<open>rasterize\<close> stores under the
  keys \<^verbatim>\<open><key>_raster_position\<close>, \<^verbatim>\<open><key>_raster_x_position\<close>,
  \<^verbatim>\<open><key>_raster_time_index\<close> and \<^verbatim>\<open><key>_raster_time\<close>.
\<close>

record raster =
  raster_position :: "int list"
  raster_x_position :: "real list"
  raster_time_index :: "int list"
  raster_time :: "real list"

definition empty_raster :: raster where
  "empty_raster = \<lparr>raster_position = [], raster_x_position = [],
                    raster_time_index = [], raster_time = []\<rparr>"

text \<open>
  The condition of the \<^verbatim>\<open>if\<close> in the inner loop.  Python's \<^verbatim>\<open>and\<close> evaluates its
  operands from left to right and stops at the first false one, so a later read is
  performed (and may raise) only when the earlier conjuncts hold:
  \<^verbatim>\<open>
  Voltage[i][j] <= thr and Voltage[i][j+1] >= thr \
      and Voltage[i][min((j+int(t_min_spike*(1/dt))),t_stop)] >= thr \
      and (j*dt - t_last_spike) > t_refractory
  \<close>
\<close>

definition spike_condition ::
  "real list list \<Rightarrow> real \<Rightarrow> real \<Rightarrow> int \<Rightarrow> real \<Rightarrow> real \<Rightarrow> int \<Rightarrow> int \<Rightarrow> real \<Rightarrow> error + bool" where
  "spike_condition Voltage thr dt t_stop t_refractory t_min_spike i j t_last_spike =
     ebind (py_index Voltage i) (\<lambda>row0.
     ebind (py_index row0 j) (\<lambda>v0.
       if \<not> v0 \<le> thr then Inr False
       else
         ebind (py_index Voltage i) (\<lambda>row1.
         ebind (py_index row1 (j + 1)) (\<lambda>v1.
           if \<not> v1 \<ge> thr then Inr False
           else
             ebind (py_index Voltage i) (\<lambda>row2.
             ebind (py_div 1 dt) (\<lambda>inv_dt.
             ebind (py_index row2 (min (j + py_int (t_min_spike * inv_dt)) t_stop)) (\<lambda>v2.
               if \<not> v2 \<ge> thr then Inr False
               else Inr (of_int j * dt - t_last_spike > t_refractory))))))))"

text \<open>
  The body of the inner loop; its state is the four lists and \<^verbatim>\<open>t_last_spike\<close>:
  \<^verbatim>\<open>
  raster_position.append(i)
  raster_x_position.append(x[i])
  raster_time_index.append(j)
  raster_time.append(t[j])
  t_last_spike = j*dt
  \<close>
\<close>

definition detect_step ::
  "real list list \<Rightarrow> real list \<Rightarrow> real list \<Rightarrow> real \<Rightarrow> real \<Rightarrow> int \<Rightarrow> real \<Rightarrow> real \<Rightarrow>
   int \<Rightarrow> int \<Rightarrow> raster \<times> real \<Rightarrow> error + raster \<times> real" where
  "detect_step Voltage t x thr dt t_stop t_refractory t_min_spike i j st =
     (case st of (r, t_last_spike) \<Rightarrow>
       ebind (spike_condition Voltage thr dt t_stop t_refractory t_min_spike i j t_last_spike)
         (\<lambda>spike.
           if spike then
             ebind (py_index x i) (\<lambda>xi.
             ebind (py_index t j) (\<lambda>tj.
               Inr (\<lparr>raster_position = raster_position r @ [i],
                     raster_x_position = raster_x_position r @ [xi],
                     raster_time_index = raster_time_index r @ [j],
                     raster_time = raster_time r @ [tj]\<rparr>,
                    of_int j * dt)))
           else Inr (r, t_last_spike)))"

text \<open>
  The body of the outer loop, one scanned row:
  \<^verbatim>\<open>
  t_last_spike = t_start - t_refractory
  for j in range(int(t_start*(1/dt)),t_stop):
      ...
  \<close>
\<close>

definition scan_row ::
  "real list list \<Rightarrow> real list \<Rightarrow> real list \<Rightarrow> real \<Rightarrow> real \<Rightarrow> real \<Rightarrow> int \<Rightarrow> real \<Rightarrow> real \<Rightarrow>
   int \<Rightarrow> raster \<Rightarrow> error + raster" where
  "scan_row Voltage t x thr dt t_start t_stop t_refractory t_min_spike i r =
     (let t_last_spike = t_start - t_refractory in
      ebind (py_div 1 dt) (\<lambda>inv_dt.
      ebind (for_each (py_range (py_int (t_start * inv_dt)) t_stop)
               (detect_step Voltage t x thr dt t_stop t_refractory t_min_spike i)
               (r, t_last_spike)) (\<lambda>st.
        Inr (fst st))))"

text \<open>
  \<^verbatim>\<open>
  def spike_detection(Voltage, t, x, list_to_parse, thr, dt, t_start, t_stop,
                      t_refractory, t_min_spike):
      raster_position=[] ...
      for i in list_to_parse:
          ...
      return np.asarray(raster_position), np.asarray(raster_x_position), \
             np.asarray(raster_time_index), np.asarray(raster_time)
  \<close>
\<close>

definition spike_detection ::
  "real list list \<Rightarrow> real list \<Rightarrow> real list \<Rightarrow> int list \<Rightarrow> real \<Rightarrow> real \<Rightarrow> real \<Rightarrow> int \<Rightarrow>
   real \<Rightarrow> real \<Rightarrow> error + raster" where
  "spike_detection Voltage t x list_to_parse thr dt t_start t_stop t_refractory t_min_spike =
     for_each list_to_parse
       (scan_row Voltage t x thr dt t_start t_stop t_refractory t_min_spike) empty_raster"

section \<open>Spike detector over the arithmetic of the program\<close>

text \<open>
  The compiled \<^verbatim>\<open>spike_detection\<close> computes on double-precision floats: the products
  \<^verbatim>\<open>t_start*(1/dt)\<close>, \<^verbatim>\<open>t_min_spike*(1/dt)\<close> and \<^verbatim>\<open>j*dt\<close>, the differences and the
  comparisons are rounded operations, and their results differ from those of the reals
  (\<^verbatim>\<open>0.21*(1/0.07)\<close> is \<^verbatim>\<open>2.9999999999999996\<close>, truncated to 2).  The model of this section
  assumes nothing about the arithmetic: the floats are an arbitrary type \<open>'f\<close> and the
  operations the function uses are parameters.  What is proved holds for every choice of
  them, the operations of the machine included.
  \<^item> \<open>fl_recip\<close> is \<^verbatim>\<open>1/dt\<close>, which raises on a zero divisor;
  \<^item> \<open>fl_mul\<close>, \<open>fl_sub\<close> are \<^verbatim>\<open>*\<close> and \<^verbatim>\<open>-\<close>;
  \<^item> \<open>fl_of_int\<close> converts the integer \<^verbatim>\<open>j\<close> in \<^verbatim>\<open>j*dt\<close>, \<open>fl_int\<close> is \<^verbatim>\<open>int(...)\<close>;
  \<^item> \<open>fl_le a b\<close> is \<^verbatim>\<open>a <= b\<close> (and \<^verbatim>\<open>b >= a\<close>), \<open>fl_lt a b\<close> is \<^verbatim>\<open>a < b\<close> (and
    \<^verbatim>\<open>b > a\<close>).
\<close>

record 'f float_ops =
  fl_recip :: "'f \<Rightarrow> error + 'f"
  fl_mul :: "'f \<Rightarrow> 'f \<Rightarrow> 'f"
  fl_sub :: "'f \<Rightarrow> 'f \<Rightarrow> 'f"
  fl_of_int :: "int \<Rightarrow> 'f"
  fl_int :: "'f \<Rightarrow> int"
  fl_le :: "'f \<Rightarrow> 'f \<Rightarrow> bool"
  fl_lt :: "'f \<Rightarrow> 'f \<Rightarrow> bool"

text \<open>
  The operations of the reals.  They are those of the machine on values where double
  arithmetic is exact, such as the small integers and binary fractions of the examples
  below.
\<close>

definition exact_ops :: "real float_ops" where
  "exact_ops =
     \<lparr>fl_recip = py_div 1, fl_mul = (\<lambda>a b. a * b), fl_sub = (\<lambda>a b. a - b),
      fl_of_int = real_of_int, fl_int = py_int,
      fl_le = (\<lambda>a b. a \<le> b), fl_lt = (\<lambda>a b. a < b)\<rparr>"

record 'f fl_raster =
  fl_position :: "int list"
  fl_x_position :: "'f list"
  fl_time_index :: "int list"
  fl_time :: "'f list"

definition fl_empty_raster :: "'f fl_raster" where
  "fl_empty_raster = \<lparr>fl_position = [], fl_x_position = [], fl_time_index = [], fl_time = []\<rparr>"

text \<open>The condition of the \<^verbatim>\<open>if\<close>, operand by operand as in \<open>spike_condition\<close>.\<close>

definition fl_spike_condition ::
  "'f float_ops \<Rightarrow> 'f list list \<Rightarrow> 'f \<Rightarrow> 'f \<Rightarrow> int \<Rightarrow> 'f \<Rightarrow> 'f \<Rightarrow> int \<Rightarrow> int \<Rightarrow> 'f \<Rightarrow> error + bool" where
  "fl_spike_condition ops Voltage thr dt t_stop t_refractory t_min_spike i j t_last_spike =
     ebind (py_index Voltage i) (\<lambda>row0.
     ebind (py_index row0 j) (\<lambda>v0.
       if \<not> fl_le ops v0 thr then Inr False
       else
         ebind (py_index Voltage i) (\<lambda>row1.
         ebind (py_index row1 (j + 1)) (\<lambda>v1.
           if \<not> fl_le ops thr v1 then Inr False
           else
             ebind (py_index Voltage i) (\<lambda>row2.
             ebind (fl_recip ops dt) (\<lambda>inv_dt.
             ebind (py_index row2 (min (j + fl_int ops (fl_mul ops t_min_spike inv_dt)) t_stop))
               (\<lambda>v2.
               if \<not> fl_le ops thr v2 then Inr False
               else Inr (fl_lt ops t_refractory
                           (fl_sub ops (fl_mul ops (fl_of_int ops j) dt) t_last_spike)))))))))"

definition fl_detect_step ::
  "'f float_ops \<Rightarrow> 'f list list \<Rightarrow> 'f list \<Rightarrow> 'f list \<Rightarrow> 'f \<Rightarrow> 'f \<Rightarrow> int \<Rightarrow> 'f \<Rightarrow> 'f \<Rightarrow>
   int \<Rightarrow> int \<Rightarrow> 'f fl_raster \<times> 'f \<Rightarrow> error + 'f fl_raster \<times> 'f" where
  "fl_detect_step ops Voltage t x thr dt t_stop t_refractory t_min_spike i j st =
     (case st of (r, t_last_spike) \<Rightarrow>
       ebind (fl_spike_condition ops Voltage thr dt t_stop t_refractory t_min_spike i j
                t_last_spike)
         (\<lambda>spike.
           if spike then
             ebind (py_index x i) (\<lambda>xi.
             ebind (py_index t j) (\<lambda>tj.
               Inr (\<lparr>fl_position = fl_position r @ [i],
                     fl_x_position = fl_x_position r @ [xi],
                     fl_time_index = fl_time_index r @ [j],
                     fl_time = fl_time r @ [tj]\<rparr>,
                    fl_mul ops (fl_of_int ops j) dt)))
           else Inr (r, t_last_spike)))"

definition fl_scan_row ::
  "'f float_ops \<Rightarrow> 'f list list \<Rightarrow> 'f list \<Rightarrow> 'f list \<Rightarrow> 'f \<Rightarrow> 'f \<Rightarrow> 'f \<Rightarrow> int \<Rightarrow> 'f \<Rightarrow> 'f \<Rightarrow>
   int \<Rightarrow> 'f fl_raster \<Rightarrow> error + 'f fl_raster" where
  "fl_scan_row ops Voltage t x thr dt t_start t_stop t_refractory t_min_spike i r =
     (let t_last_spike = fl_sub ops t_start t_refractory in
      ebind (fl_recip ops dt) (\<lambda>inv_dt.
      ebind (for_each (py_range (fl_int ops (fl_mul ops t_start inv_dt)) t_stop)
               (fl_detect_step ops Voltage t x thr dt t_stop t_refractory t_min_spike i)
               (r, t_last_spike)) (\<lambda>st.
        Inr (fst st))))"

definition fl_spike_detection ::
  "'f float_ops \<Rightarrow> 'f list list \<Rightarrow> 'f list \<Rightarrow> 'f list \<Rightarrow> int list \<Rightarrow> 'f \<Rightarrow> 'f \<Rightarrow> 'f \<Rightarrow> int \<Rightarrow>
   'f \<Rightarrow> 'f \<Rightarrow> error + 'f fl_raster" where
  "fl_spike_detection ops Voltage t x list_to_parse thr dt t_start t_stop t_refractory
     t_min_spike =
     for_each list_to_parse
       (fl_scan_row ops Voltage t x thr dt t_start t_stop t_refractory t_min_spike)
       fl_empty_raster"

subsection \<open>The detector as the specification words it\<close>

text \<open>
  Section 4.3 of the specification describes the scan of one row: keep \<open>t_last_spike\<close>,
  initially \<open>t_start - t_refractory\<close>; visit the sample indices from the first index to
  \<open>t_stop - 1\<close>; record a spike at \<open>j\<close> iff the three conditions hold; on acceptance emit
  the event of row \<open>i\<close> and index \<open>j\<close> and set \<open>t_last_spike = j*dt\<close>.  The definitions
  below follow these words.  The first index and the number of samples of the minimum
  duration are parameters, \<open>first\<close> and \<open>ahead\<close>: the specification obtains them with
  \<open>round\<close>, the code with \<^verbatim>\<open>int(...)\<close>.  A sample that does not exist satisfies no
  comparison.
\<close>

definition spec_sample :: "'f list list \<Rightarrow> int \<Rightarrow> int \<Rightarrow> 'f option" where
  "spec_sample Voltage i j =
     (case py_index Voltage i of
        Inl e \<Rightarrow> None
      | Inr row \<Rightarrow> (case py_index row j of Inl e \<Rightarrow> None | Inr v \<Rightarrow> Some v))"

definition spec_accepts ::
  "'f float_ops \<Rightarrow> int \<Rightarrow> 'f list list \<Rightarrow> 'f \<Rightarrow> 'f \<Rightarrow> int \<Rightarrow> 'f \<Rightarrow> int \<Rightarrow> int \<Rightarrow> 'f \<Rightarrow> bool" where
  "spec_accepts ops ahead Voltage thr dt t_stop t_refractory i j t_last_spike =
     ((case spec_sample Voltage i j of None \<Rightarrow> False | Some v \<Rightarrow> fl_le ops v thr) \<and>
      (case spec_sample Voltage i (j + 1) of None \<Rightarrow> False | Some v \<Rightarrow> fl_le ops thr v) \<and>
      (case spec_sample Voltage i (min (j + ahead) t_stop) of
         None \<Rightarrow> False | Some v \<Rightarrow> fl_le ops thr v) \<and>
      fl_lt ops t_refractory (fl_sub ops (fl_mul ops (fl_of_int ops j) dt) t_last_spike))"

fun spec_scan :: "'f float_ops \<Rightarrow> (int \<Rightarrow> 'f \<Rightarrow> bool) \<Rightarrow> 'f \<Rightarrow> int list \<Rightarrow> 'f \<Rightarrow> int list" where
  "spec_scan ops accepts dt [] t_last_spike = []"
| "spec_scan ops accepts dt (j # js) t_last_spike =
     (if accepts j t_last_spike
      then j # spec_scan ops accepts dt js (fl_mul ops (fl_of_int ops j) dt)
      else spec_scan ops accepts dt js t_last_spike)"

definition spec_row_spikes ::
  "'f float_ops \<Rightarrow> int \<Rightarrow> int \<Rightarrow> 'f list list \<Rightarrow> 'f \<Rightarrow> 'f \<Rightarrow> 'f \<Rightarrow> int \<Rightarrow> 'f \<Rightarrow> int \<Rightarrow> int list" where
  "spec_row_spikes ops first ahead Voltage thr dt t_start t_stop t_refractory i =
     spec_scan ops (spec_accepts ops ahead Voltage thr dt t_stop t_refractory i) dt
       [first..t_stop - 1] (fl_sub ops t_start t_refractory)"

text \<open>The recorded pairs of a row index and a sample index, rows in the order of
  \<open>list_to_parse\<close>.\<close>

definition spec_spikes ::
  "'f float_ops \<Rightarrow> int \<Rightarrow> int \<Rightarrow> 'f list list \<Rightarrow> int list \<Rightarrow> 'f \<Rightarrow> 'f \<Rightarrow> 'f \<Rightarrow> int \<Rightarrow> 'f \<Rightarrow>
   (int \<times> int) list" where
  "spec_spikes ops first ahead Voltage list_to_parse thr dt t_start t_stop t_refractory =
     concat (map (\<lambda>i. map (Pair i)
                    (spec_row_spikes ops first ahead Voltage thr dt t_start t_stop
                       t_refractory i))
               list_to_parse)"

text \<open>What a raster holds beyond another one: the recorded sample indices \<open>js\<close> of row
  \<open>i\<close>, with the coordinate \<open>x[i]\<close> and the time \<open>t[j]\<close> of each.\<close>

definition extends_by ::
  "'f list \<Rightarrow> 'f list \<Rightarrow> 'f fl_raster \<Rightarrow> 'f fl_raster \<Rightarrow> (int \<times> int) list \<Rightarrow> bool" where
  "extends_by t x r r' ps \<longleftrightarrow>
     fl_position r' = fl_position r @ map fst ps \<and>
     fl_time_index r' = fl_time_index r @ map snd ps \<and>
     map Inr (fl_x_position r') = map Inr (fl_x_position r) @ map (\<lambda>p. py_index x (fst p)) ps \<and>
     map Inr (fl_time r') = map Inr (fl_time r) @ map (\<lambda>p. py_index t (snd p)) ps"

text \<open>
  With the operations of the reals the model is the detector of the previous section,
  whose rasters hold the same four lists.
\<close>

definition to_raster :: "real fl_raster \<Rightarrow> raster" where
  "to_raster r =
     \<lparr>raster_position = fl_position r, raster_x_position = fl_x_position r,
      raster_time_index = fl_time_index r, raster_time = fl_time r\<rparr>"

section \<open>The result dictionary\<close>

text \<open>
  \<^verbatim>\<open>my_dict\<close> maps key strings to values.  The values the functions below read are
  floats, strings, booleans, NumPy arrays of floats or of integers, the two-dimensional
  voltage array, and Python lists of floats (\<^verbatim>\<open>intra_stim_starts\<close>).  A missing key raises
  \<^verbatim>\<open>KeyError\<close>; a value of another kind than the function expects is outside the data
  model of the record and is reported as \<^verbatim>\<open>TypeError\<close>.
\<close>

datatype pyval =
    Float real
  | Str string
  | Bool bool
  | Array "real list"
  | IntArray "int list"
  | Matrix "real list list"
  | PyList "real list"

type_synonym results = "string \<rightharpoonup> pyval"

definition dict_get :: "results \<Rightarrow> string \<Rightarrow> error + pyval" where
  "dict_get my_dict key = (case my_dict key of None \<Rightarrow> Inl KeyError | Some v \<Rightarrow> Inr v)"

definition get_float :: "results \<Rightarrow> string \<Rightarrow> error + real" where
  "get_float my_dict key =
     ebind (dict_get my_dict key) (\<lambda>v. case v of Float r \<Rightarrow> Inr r | _ \<Rightarrow> Inl TypeError)"

definition get_array :: "results \<Rightarrow> string \<Rightarrow> error + real list" where
  "get_array my_dict key =
     ebind (dict_get my_dict key) (\<lambda>v. case v of Array xs \<Rightarrow> Inr xs | _ \<Rightarrow> Inl TypeError)"

definition get_int_array :: "results \<Rightarrow> string \<Rightarrow> error + int list" where
  "get_int_array my_dict key =
     ebind (dict_get my_dict key) (\<lambda>v. case v of IntArray xs \<Rightarrow> Inr xs | _ \<Rightarrow> Inl TypeError)"

definition get_matrix :: "results \<Rightarrow> string \<Rightarrow> error + real list list" where
  "get_matrix my_dict key =
     ebind (dict_get my_dict key) (\<lambda>v. case v of Matrix rows \<Rightarrow> Inr rows | _ \<Rightarrow> Inl TypeError)"

section \<open>NumPy selections\<close>

text \<open>\<^verbatim>\<open>np.where(cond)\<close> on a one-dimensional array: the indices at which \<open>cond\<close> holds,
  ascending.\<close>

definition np_where :: "('a \<Rightarrow> bool) \<Rightarrow> 'a list \<Rightarrow> nat list" where
  "np_where p xs = filter (\<lambda>k. p (xs ! k)) [0..<length xs]"

text \<open>\<^verbatim>\<open>np.intersect1d(a, b)\<close>: the sorted, unique values that are in both arrays.\<close>

definition intersect1d :: "nat list \<Rightarrow> nat list \<Rightarrow> nat list" where
  "intersect1d a b = sort (remdups (filter (\<lambda>k. k \<in> set b) a))"

text \<open>\<^verbatim>\<open>arr[indexes]\<close> with an array of non-negative indices.\<close>

definition np_take :: "'a list \<Rightarrow> nat list \<Rightarrow> error + 'a list" where
  "np_take xs indexes =
     (if list_all (\<lambda>k. k < length xs) indexes then Inr (map (\<lambda>k. xs ! k) indexes)
      else Inl IndexError)"

text \<open>\<^verbatim>\<open>np.amin\<close>, \<^verbatim>\<open>np.amax\<close> and the builtins \<^verbatim>\<open>min\<close>, \<^verbatim>\<open>max\<close> raise \<^verbatim>\<open>ValueError\<close>
  on an empty sequence; so do \<^verbatim>\<open>np.argmin\<close> and \<^verbatim>\<open>np.argmax\<close>, which return the first
  index of the extremum.\<close>

fun py_max :: "real list \<Rightarrow> error + real" where
  "py_max [] = Inl ValueError"
| "py_max (v # vs) = Inr (fold max vs v)"

definition first_index :: "('a \<Rightarrow> bool) \<Rightarrow> 'a list \<Rightarrow> nat" where
  "first_index p xs = length (takeWhile (\<lambda>v. \<not> p v) xs)"

definition np_argmax :: "real list \<Rightarrow> error + nat" where
  "np_argmax xs = ebind (py_max xs) (\<lambda>m. Inr (first_index (\<lambda>v. v = m) xs))"

definition np_argmin :: "real list \<Rightarrow> error + nat" where
  "np_argmin xs = ebind (py_min xs) (\<lambda>m. Inr (first_index (\<lambda>v. v = m) xs))"

text \<open>
  A comparison of a one-dimensional array with a scalar or with another one-dimensional
  array broadcasts: an array of length one acts as a scalar, arrays of equal length are
  compared entry by entry, other shapes raise \<^verbatim>\<open>ValueError\<close>.
\<close>

datatype operand = Scalar real | Vec "real list"

definition np_compare :: "(real \<Rightarrow> real \<Rightarrow> bool) \<Rightarrow> real list \<Rightarrow> operand \<Rightarrow> error + bool list" where
  "np_compare rel xs y =
     (case y of
        Scalar s \<Rightarrow> Inr (map (\<lambda>v. rel v s) xs)
      | Vec ys \<Rightarrow>
          if length ys = 1 then Inr (map (\<lambda>v. rel v (hd ys)) xs)
          else if length xs = 1 then Inr (map (\<lambda>w. rel (hd xs) w) ys)
          else if length xs = length ys then Inr (map2 rel xs ys)
          else Inl ValueError)"

definition np_where_compare ::
  "(real \<Rightarrow> real \<Rightarrow> bool) \<Rightarrow> real list \<Rightarrow> operand \<Rightarrow> error + nat list" where
  "np_where_compare rel xs y = ebind (np_compare rel xs y) (\<lambda>bs. Inr (np_where (\<lambda>b. b) bs))"

text \<open>
  The choice of the raster keys, shared by the queries:
  \<^verbatim>\<open>
  if my_key == None:
      if 'V_mem_filtered_raster_position' in my_dict:
          good_key_prefix = 'V_mem_filtered_raster'
      elif 'V_mem_raster_position' in my_dict:
          good_key_prefix = 'V_mem_raster'
      else:
          return False
  \<close>
\<close>

definition default_key_prefix :: "results \<Rightarrow> string option" where
  "default_key_prefix my_dict =
     (if my_dict ''V_mem_filtered_raster_position'' \<noteq> None then Some ''V_mem_filtered_raster''
      else if my_dict ''V_mem_raster_position'' \<noteq> None then Some ''V_mem_raster''
      else None)"

definition resolve_t_stop :: "results \<Rightarrow> real \<Rightarrow> error + real" where
  "resolve_t_stop my_dict t_stop = (if t_stop = 0 then get_float my_dict ''tstop'' else Inr t_stop)"

section \<open>Spike train queries\<close>

text \<open>
  \<^verbatim>\<open>
  def find_spike_origin(my_dict,my_key=None,t_start=0,t_stop=0,x_min=None,x_max=None):
      if t_stop == 0:
          t_stop = my_dict['tstop']
      ... (choice of good_key_prefix, return False without raster keys)
      sup_indexes = np.where(my_dict[good_key_prefix+'_time']>t_start)
      inf_indexes = np.where(my_dict[good_key_prefix+'_time']<t_stop)
      good_indexes = np.intersect1d(sup_indexes, inf_indexes)
      good_spike_times = my_dict[good_key_prefix+'_time'][good_indexes]
      good_spike_positions = my_dict[good_key_prefix+'_x_position'][good_indexes]
      if x_min != None:
          sup_xmin_indexes = np.where(good_spike_positions>x_min)
      else:
          sup_xmin_indexes = np.arange(len(good_spike_positions))
      if x_max != None:
          inf_xmax_indexes = np.where(good_spike_positions<x_max)
      else:
          inf_xmax_indexes = np.arange(len(good_spike_positions))
      good_x_indexes = np.intersect1d(sup_xmin_indexes,inf_xmax_indexes)
      considered_spike_times = good_spike_times[good_x_indexes]
      considered_spike_positions = good_spike_positions[good_x_indexes]
      start_index = np.where(considered_spike_times == np.amin(considered_spike_times))
      start_time = considered_spike_times[start_index]
      start_x_position = considered_spike_positions[start_index]
      return start_time, start_x_position
  \<close>
\<close>

datatype origin_result = OriginFalse | Origin "real list" "real list"

definition find_spike_origin ::
  "results \<Rightarrow> string option \<Rightarrow> real \<Rightarrow> real \<Rightarrow> real option \<Rightarrow> real option \<Rightarrow> error + origin_result" where
  "find_spike_origin my_dict my_key t_start t_stop x_min x_max =
     ebind (resolve_t_stop my_dict t_stop) (\<lambda>t_stop.
     case (case my_key of None \<Rightarrow> default_key_prefix my_dict | Some k \<Rightarrow> Some k) of
       None \<Rightarrow> Inr OriginFalse
     | Some good_key_prefix \<Rightarrow>
         ebind (get_array my_dict (good_key_prefix @ ''_time'')) (\<lambda>time.
         let sup_indexes = np_where (\<lambda>v. v > t_start) time;
             inf_indexes = np_where (\<lambda>v. v < t_stop) time;
             good_indexes = intersect1d sup_indexes inf_indexes
         in
         ebind (np_take time good_indexes) (\<lambda>good_spike_times.
         ebind (get_array my_dict (good_key_prefix @ ''_x_position'')) (\<lambda>x_position.
         ebind (np_take x_position good_indexes) (\<lambda>good_spike_positions.
         let sup_xmin_indexes =
               (case x_min of Some b \<Rightarrow> np_where (\<lambda>v. v > b) good_spike_positions
                | None \<Rightarrow> [0..<length good_spike_positions]);
             inf_xmax_indexes =
               (case x_max of Some b \<Rightarrow> np_where (\<lambda>v. v < b) good_spike_positions
                | None \<Rightarrow> [0..<length good_spike_positions]);
             good_x_indexes = intersect1d sup_xmin_indexes inf_xmax_indexes
         in
         ebind (np_take good_spike_times good_x_indexes) (\<lambda>considered_spike_times.
         ebind (np_take good_spike_positions good_x_indexes) (\<lambda>considered_spike_positions.
         ebind (py_min considered_spike_times) (\<lambda>earliest.
         let start_index = np_where (\<lambda>v. v = earliest) considered_spike_times in
         ebind (np_take considered_spike_times start_index) (\<lambda>start_time.
         ebind (np_take considered_spike_positions start_index) (\<lambda>start_x_position.
           Inr (Origin start_time start_x_position)))))))))))"

text \<open>
  \<^verbatim>\<open>find_spike_last_occurance\<close>.  With \<^verbatim>\<open>x_start == 0\<close> the start is taken from
  \<^verbatim>\<open>find_spike_origin\<close>, whose two results are arrays; they then take part in the
  comparisons by broadcasting.  In each branch:
  \<^verbatim>\<open>
  upper_spike_index = np.where(considered_spike_positions > x_start)
  upper_spike_times = considered_spike_times[upper_spike_index]
  upper_spike_positions = considered_spike_positions[upper_spike_index]
  last_spike_index = np.where(upper_spike_times == np.amax(upper_spike_times))
  \<close>
  and, for a direction other than \<^verbatim>\<open>'up'\<close> and \<^verbatim>\<open>'down'\<close>:
  \<^verbatim>\<open>
  t_last = np.asarray([lower_spike_times[last_lower_spike_index][0],
                       lower_spike_times[last_upper_spike_index]][0])
  x_last = np.asarray([lower_spike_positions[last_lower_spike_index][0],
                       lower_spike_positions[last_upper_spike_index]][0])
  \<close>
  The list display evaluates both of its entries and the subscript \<^verbatim>\<open>[0]\<close> after it selects
  the first.
\<close>

datatype last_result = LastFalse | Last operand operand

definition spike_partition ::
  "(real \<Rightarrow> real \<Rightarrow> bool) \<Rightarrow> real list \<Rightarrow> real list \<Rightarrow> operand \<Rightarrow> error + real list \<times> real list" where
  "spike_partition rel considered_spike_times considered_spike_positions x_start =
     ebind (np_where_compare rel considered_spike_positions x_start) (\<lambda>spike_index.
     ebind (np_take considered_spike_times spike_index) (\<lambda>spike_times.
     ebind (np_take considered_spike_positions spike_index) (\<lambda>spike_positions.
       Inr (spike_times, spike_positions))))"

definition last_spike_index :: "real list \<Rightarrow> error + nat list" where
  "last_spike_index spike_times =
     ebind (py_max spike_times) (\<lambda>latest. Inr (np_where (\<lambda>v. v = latest) spike_times))"

definition find_spike_last_occurance ::
  "results \<Rightarrow> string option \<Rightarrow> real \<Rightarrow> real \<Rightarrow> string \<Rightarrow> real \<Rightarrow> error + last_result" where
  "find_spike_last_occurance my_dict my_key t_start t_stop direction x_start =
     ebind (resolve_t_stop my_dict t_stop) (\<lambda>t_stop.
     case (case my_key of None \<Rightarrow> default_key_prefix my_dict | Some k \<Rightarrow> Some k) of
       None \<Rightarrow> Inr LastFalse
     | Some good_key_prefix \<Rightarrow>
         ebind (if x_start = 0 then
                  ebind (find_spike_origin my_dict (Some good_key_prefix) t_start t_stop None None)
                    (\<lambda>origin. case origin of
                        OriginFalse \<Rightarrow> Inl TypeError
                      | Origin start_time start_x_position \<Rightarrow>
                          Inr (Vec start_time, Vec start_x_position))
                else Inr (Scalar t_start, Scalar x_start)) (\<lambda>(t_start, x_start).
         ebind (get_array my_dict (good_key_prefix @ ''_time'')) (\<lambda>time.
         ebind (np_where_compare (\<lambda>a b. a > b) time t_start) (\<lambda>sup_indexes.
         let inf_indexes = np_where (\<lambda>v. v < t_stop) time;
             good_indexes = intersect1d sup_indexes inf_indexes
         in
         ebind (np_take time good_indexes) (\<lambda>considered_spike_times.
         ebind (get_array my_dict (good_key_prefix @ ''_x_position'')) (\<lambda>x_position.
         ebind (np_take x_position good_indexes) (\<lambda>considered_spike_positions.
         if direction = ''up'' then
           ebind (spike_partition (\<lambda>a b. a > b) considered_spike_times
                    considered_spike_positions x_start) (\<lambda>(upper_spike_times, upper_spike_positions).
           ebind (last_spike_index upper_spike_times) (\<lambda>last_index.
           ebind (np_take upper_spike_times last_index) (\<lambda>t_last.
           ebind (np_take upper_spike_positions last_index) (\<lambda>x_last.
             Inr (Last (Vec t_last) (Vec x_last))))))
         else if direction = ''down'' then
           ebind (spike_partition (\<lambda>a b. a < b) considered_spike_times
                    considered_spike_positions x_start) (\<lambda>(lower_spike_times, lower_spike_positions).
           ebind (last_spike_index lower_spike_times) (\<lambda>last_index.
           ebind (np_take lower_spike_times last_index) (\<lambda>t_last.
           ebind (np_take lower_spike_positions last_index) (\<lambda>x_last.
             Inr (Last (Vec t_last) (Vec x_last))))))
         else
           ebind (spike_partition (\<lambda>a b. a > b) considered_spike_times
                    considered_spike_positions x_start) (\<lambda>(upper_spike_times, upper_spike_positions).
           ebind (spike_partition (\<lambda>a b. a < b) considered_spike_times
                    considered_spike_positions x_start) (\<lambda>(lower_spike_times, lower_spike_positions).
           ebind (last_spike_index upper_spike_times) (\<lambda>last_upper_spike_index.
           ebind (last_spike_index lower_spike_times) (\<lambda>last_lower_spike_index.
           ebind (np_take lower_spike_times last_lower_spike_index) (\<lambda>lower_last_times.
           ebind (py_index lower_last_times 0) (\<lambda>t_first.
           ebind (np_take lower_spike_times last_upper_spike_index) (\<lambda>t_second.
           ebind (np_take lower_spike_positions last_lower_spike_index) (\<lambda>lower_last_positions.
           ebind (py_index lower_last_positions 0) (\<lambda>x_first.
           ebind (np_take lower_spike_positions last_upper_spike_index) (\<lambda>x_second.
             Inr (Last (Scalar t_first) (Scalar x_first)))))))))))))))))))"

section \<open>Conduction metrics\<close>

text \<open>
  The start of the time window, shared by \<^verbatim>\<open>speed\<close> and \<^verbatim>\<open>block\<close>
  (\<^verbatim>\<open>intra_stim_starts\<close> is a Python list):
  \<^verbatim>\<open>
  if t_start==0:
      if 'intra_stim_starts' in my_dict and my_dict['intra_stim_starts']!=[]:
              t_start=my_dict['intra_stim_starts'][0]
  \<close>
\<close>

definition resolve_t_start :: "results \<Rightarrow> real \<Rightarrow> error + real" where
  "resolve_t_start my_dict t_start =
     (if t_start = 0 then
        (case my_dict ''intra_stim_starts'' of
           None \<Rightarrow> Inr t_start
         | Some (PyList []) \<Rightarrow> Inr t_start
         | Some (PyList (s # ss)) \<Rightarrow> Inr s
         | Some other \<Rightarrow> Inl TypeError)
      else Inr t_start)"

text \<open>A division of NumPy floats does not raise: a zero divisor gives \<open>nan\<close> or an
  infinity (with a warning).\<close>

datatype np_float = Finite real | NaN | PosInf | NegInf

definition np_true_divide :: "real \<Rightarrow> real \<Rightarrow> np_float" where
  "np_true_divide a b =
     (if b \<noteq> 0 then Finite (a / b) else if a = 0 then NaN else if 0 < a then PosInf else NegInf)"

text \<open>
  \<^verbatim>\<open>
  def speed(my_dict,position_key=None,t_start=0,t_stop=0,x_start=0,x_stop=0):
      if t_stop == 0:
          t_stop = my_dict['tstop']
      if t_start==0: ...
      if x_start==0:
          x_stop=my_dict['L']
      elif x_stop==0:
          x_start=my_dict['L']
      if position_key == None:
          ... (choice of good_key_prefix, return False without raster keys)
      else:
          good_key_prefix = my_key
      sup_time_indexes = np.where(my_dict[good_key_prefix+'_time']>t_start)
      inf_time_indexes = np.where(my_dict[good_key_prefix+'_time']<t_stop)
      good_indexes_time = np.intersect1d(sup_time_indexes, inf_time_indexes)
      sup_position_indexes = np.where(my_dict[good_key_prefix+'_x_position'][good_indexes_time]>=x_start)
      inf_position_indexes = np.where(my_dict[good_key_prefix+'_x_position'][good_indexes_time]<=x_stop)
      good_indexes_position = np.intersect1d(sup_position_indexes, inf_position_indexes)
      good_indexes=np.intersect1d(good_indexes_position,good_indexes_time)
      good_spike_times = my_dict[good_key_prefix+'_time'][good_indexes]
      good_spike_positions = my_dict[good_key_prefix+'_x_position'][good_indexes]
      max_time=np.argmax(good_spike_times)
      min_time=np.argmin(good_spike_times)
      speed=(good_spike_positions[max_time]-good_spike_positions[min_time])*10**-3
            /(good_spike_times[max_time]-good_spike_times[min_time])
      return speed
  \<close>
  The name \<^verbatim>\<open>my_key\<close> is not defined in \<^verbatim>\<open>speed\<close>: a call with a \<^verbatim>\<open>position_key\<close> raises
  \<^verbatim>\<open>NameError\<close>.
\<close>

datatype speed_result = SpeedFalse | Speed np_float

definition speed_selection ::
  "real list \<Rightarrow> real list \<Rightarrow> real \<Rightarrow> real \<Rightarrow> real \<Rightarrow> real \<Rightarrow> error + nat list" where
  "speed_selection time x_position t_start t_stop x_start x_stop =
     (let sup_time_indexes = np_where (\<lambda>v. v > t_start) time;
          inf_time_indexes = np_where (\<lambda>v. v < t_stop) time;
          good_indexes_time = intersect1d sup_time_indexes inf_time_indexes
      in
      ebind (np_take x_position good_indexes_time) (\<lambda>window_positions.
      let sup_position_indexes = np_where (\<lambda>v. v \<ge> x_start) window_positions;
          inf_position_indexes = np_where (\<lambda>v. v \<le> x_stop) window_positions;
          good_indexes_position = intersect1d sup_position_indexes inf_position_indexes
      in Inr (intersect1d good_indexes_position good_indexes_time)))"

definition speed_value :: "real list \<Rightarrow> real list \<Rightarrow> error + np_float" where
  "speed_value good_spike_times good_spike_positions =
     ebind (np_argmax good_spike_times) (\<lambda>max_time.
     ebind (np_argmin good_spike_times) (\<lambda>min_time.
     ebind (py_index good_spike_positions (int max_time)) (\<lambda>x_max_time.
     ebind (py_index good_spike_positions (int min_time)) (\<lambda>x_min_time.
     ebind (py_index good_spike_times (int max_time)) (\<lambda>t_max.
     ebind (py_index good_spike_times (int min_time)) (\<lambda>t_min.
       Inr (np_true_divide ((x_max_time - x_min_time) * (1 / 1000)) (t_max - t_min))))))))"

definition speed ::
  "results \<Rightarrow> string option \<Rightarrow> real \<Rightarrow> real \<Rightarrow> real \<Rightarrow> real \<Rightarrow> error + speed_result" where
  "speed my_dict position_key t_start t_stop x_start x_stop =
     ebind (resolve_t_stop my_dict t_stop) (\<lambda>t_stop.
     ebind (resolve_t_start my_dict t_start) (\<lambda>t_start.
     ebind (if x_start = 0 then ebind (get_float my_dict ''L'') (\<lambda>l. Inr (x_start, l))
            else if x_stop = 0 then ebind (get_float my_dict ''L'') (\<lambda>l. Inr (l, x_stop))
            else Inr (x_start, x_stop)) (\<lambda>(x_start, x_stop).
     case position_key of
       Some k \<Rightarrow> Inl NameError
     | None \<Rightarrow>
        (case default_key_prefix my_dict of
           None \<Rightarrow> Inr SpeedFalse
         | Some good_key_prefix \<Rightarrow>
             ebind (get_array my_dict (good_key_prefix @ ''_time'')) (\<lambda>time.
             ebind (get_array my_dict (good_key_prefix @ ''_x_position'')) (\<lambda>x_position.
             ebind (speed_selection time x_position t_start t_stop x_start x_stop) (\<lambda>good_indexes.
             ebind (np_take time good_indexes) (\<lambda>good_spike_times.
             ebind (np_take x_position good_indexes) (\<lambda>good_spike_positions.
             ebind (speed_value good_spike_times good_spike_positions) (\<lambda>v.
               Inr (Speed v)))))))))))"

text \<open>
  \<^verbatim>\<open>
  def block(my_dict,position_key=None,t_start=0,t_stop=0):
      blocked_spike_positionlist=[]
      if t_stop == 0:
          t_stop = my_dict['tstop']
      if t_start==0: ...
      if position_key == None:
          ... (choice of good_key_prefix, return False without raster keys)
      sup_time_indexes = np.where(my_dict[good_key_prefix+'_time']>t_start)
      inf_time_indexes = np.where(my_dict[good_key_prefix+'_time']<t_stop)
      good_indexes_time = np.intersect1d(sup_time_indexes, inf_time_indexes)
      good_spike_times = my_dict[good_key_prefix+'_time'][good_indexes_time]
      blocked_spike_positionlist = my_dict[good_key_prefix+'_x_position'][good_indexes_time]
      if blocked_spike_positionlist==[]:
          return None
      if 'intra_stim_positions' in my_dict:
          if my_dict['intra_stim_positions']<my_dict['extracellular_electrode_x']:
              if max(blocked_spike_positionlist)<9./10*my_dict['L']:
                  return True
              else:
                  return False
          else:
              if min(blocked_spike_positionlist)>1./10*my_dict['L']:
                  return True
              else:
                  return False
  \<close>
  The result is \<^verbatim>\<open>True\<close>, \<^verbatim>\<open>False\<close> or \<^verbatim>\<open>None\<close>, modelled as \<^typ>\<open>bool option\<close>.  With a
  \<^verbatim>\<open>position_key\<close> the name \<^verbatim>\<open>good_key_prefix\<close> is unbound at its first use.

  \<^verbatim>\<open>blocked_spike_positionlist\<close> is a NumPy array when it is compared with the list
  \<^verbatim>\<open>[]\<close>.  NumPy compares entry by entry after broadcasting against the shape \<open>(0,)\<close>:
  for an array of length 0 or 1 the result is an empty boolean array, which is false as
  a condition; for a longer array the comparison fails and yields \<^verbatim>\<open>False\<close> in the NumPy
  releases the module was written for.  The condition is never true.
\<close>

definition array_equals_empty_list :: "real list \<Rightarrow> bool" where
  "array_equals_empty_list arr = False"

definition block :: "results \<Rightarrow> string option \<Rightarrow> real \<Rightarrow> real \<Rightarrow> error + bool option" where
  "block my_dict position_key t_start t_stop =
     ebind (resolve_t_stop my_dict t_stop) (\<lambda>t_stop.
     ebind (resolve_t_start my_dict t_start) (\<lambda>t_start.
     case position_key of
       Some k \<Rightarrow> Inl NameError
     | None \<Rightarrow>
        (case default_key_prefix my_dict of
           None \<Rightarrow> Inr (Some False)
         | Some good_key_prefix \<Rightarrow>
             ebind (get_array my_dict (good_key_prefix @ ''_time'')) (\<lambda>time.
             let sup_time_indexes = np_where (\<lambda>v. v > t_start) time;
                 inf_time_indexes = np_where (\<lambda>v. v < t_stop) time;
                 good_indexes_time = intersect1d sup_time_indexes inf_time_indexes
             in
             ebind (np_take time good_indexes_time) (\<lambda>good_spike_times.
             ebind (get_array my_dict (good_key_prefix @ ''_x_position'')) (\<lambda>x_position.
             ebind (np_take x_position good_indexes_time) (\<lambda>blocked_spike_positionlist.
             if array_equals_empty_list blocked_spike_positionlist then Inr None
             else if my_dict ''intra_stim_positions'' \<noteq> None then
               ebind (get_float my_dict ''intra_stim_positions'') (\<lambda>stim.
               ebind (get_float my_dict ''extracellular_electrode_x'') (\<lambda>electrode.
                 if stim < electrode then
                   ebind (py_max blocked_spike_positionlist) (\<lambda>furthest.
                   ebind (get_float my_dict ''L'') (\<lambda>l.
                     if furthest < 9 / 10 * l then Inr (Some True) else Inr (Some False)))
                 else
                   ebind (py_min blocked_spike_positionlist) (\<lambda>nearest.
                   ebind (get_float my_dict ''L'') (\<lambda>l.
                     if nearest > 1 / 10 * l then Inr (Some True) else Inr (Some False)))))
             else Inr None)))))))"

section \<open>Notch filter stage\<close>

text \<open>
  \<^verbatim>\<open>
  def filter_freq(my_dict,my_key,freq,Q=10):
      if isinstance(freq, Iterable):
          f0 = np.asarray(freq)
      else:
          f0 = freq
      if my_dict['dt'] == 0:
          rise_warning(...)
          return False
      else:
          fs = 1/my_dict['dt']
          if isinstance(f0, Iterable):
              new_sig = np.zeros(my_dict[my_key].shape)
              for k in range(len(my_dict[my_key])):
                  new_sig[k,:] = my_dict[my_key][k]
                  for f in f0:
                      b_notch, a_notch = signal.iirnotch(f, Q, fs)
                      new_sig[k,:] = signal.lfilter(b_notch,a_notch,new_sig[k,:][k])
          else:
              b_notch, a_notch = signal.iirnotch(f0, Q, fs)
              new_sig = np.zeros(my_dict[my_key].shape)
              for k in range(len(my_dict[my_key])):
                  new_sig[k,:] = signal.lfilter(b_notch,a_notch,my_dict[my_key][k])
          my_dict[my_key+'_filtered'] = new_sig
  \<close>
  \<^verbatim>\<open>signal.iirnotch\<close> and \<^verbatim>\<open>signal.lfilter\<close> belong to SciPy; they are parameters of the
  model, the filter coefficients being of an arbitrary type.  The argument of
  \<^verbatim>\<open>lfilter\<close> is a whole row in the single-frequency branch and the single sample
  \<^verbatim>\<open>new_sig[k,:][k]\<close> in the branch for a sequence of frequencies.  The model returns
  \<open>None\<close> where the function returns \<^verbatim>\<open>False\<close> and the updated dictionary otherwise.
\<close>

datatype freq_arg = Frequency real | Frequencies "real list"

text \<open>\<^verbatim>\<open>new_sig[k,:] = value\<close> for a row of \<open>n\<close> columns: the value is broadcast.\<close>

definition assign_row :: "nat \<Rightarrow> operand \<Rightarrow> error + real list" where
  "assign_row n val =
     (case val of
        Scalar v \<Rightarrow> Inr (replicate n v)
      | Vec ys \<Rightarrow>
          if length ys = n then Inr ys
          else if length ys = 1 then Inr (replicate n (hd ys))
          else Inl ValueError)"

fun for_rows :: "(nat \<Rightarrow> 'a \<Rightarrow> error + 'b) \<Rightarrow> nat \<Rightarrow> 'a list \<Rightarrow> error + 'b list" where
  "for_rows f k [] = Inr []"
| "for_rows f k (row # rows) =
     ebind (f k row) (\<lambda>r. ebind (for_rows f (Suc k) rows) (\<lambda>rs. Inr (r # rs)))"

definition filter_freq ::
  "(real \<Rightarrow> real \<Rightarrow> real \<Rightarrow> error + 'c) \<Rightarrow> ('c \<Rightarrow> operand \<Rightarrow> error + operand) \<Rightarrow>
   results \<Rightarrow> string \<Rightarrow> freq_arg \<Rightarrow> real \<Rightarrow> error + results option" where
  "filter_freq iirnotch lfilter my_dict my_key freq Q =
     ebind (get_float my_dict ''dt'') (\<lambda>dt.
       if dt = 0 then Inr None
       else
         ebind (py_div 1 dt) (\<lambda>fs.
         ebind (case freq of
                  Frequencies f0 \<Rightarrow>
                    ebind (get_matrix my_dict my_key) (\<lambda>sig.
                      for_rows (\<lambda>k row.
                        for_each f0 (\<lambda>f new_row.
                          ebind (iirnotch f Q fs) (\<lambda>coeffs.
                          ebind (py_index new_row (int k)) (\<lambda>sample.
                          ebind (lfilter coeffs (Scalar sample)) (\<lambda>filtered.
                            assign_row (length new_row) filtered)))) row) 0 sig)
                | Frequency f0 \<Rightarrow>
                    ebind (iirnotch f0 Q fs) (\<lambda>coeffs.
                    ebind (get_matrix my_dict my_key) (\<lambda>sig.
                      for_rows (\<lambda>k row.
                        ebind (lfilter coeffs (Vec row)) (\<lambda>filtered.
                          assign_row (length row) filtered)) 0 sig))) (\<lambda>new_sig.
           Inr (Some (my_dict(my_key @ ''_filtered'' \<mapsto> Matrix new_sig))))))"

section \<open>The queries as the specification words them\<close>

text \<open>
  Section 4.4: the origin query selects the events with time strictly inside the time
  window and coordinate inside the bounds (an unset bound is no bound), and returns the
  events with the minimum time of that subset.  An event is a pair of a time and a
  coordinate.
\<close>

definition within_bounds :: "real option \<Rightarrow> real option \<Rightarrow> real \<Rightarrow> bool" where
  "within_bounds x_min x_max v =
     ((case x_min of None \<Rightarrow> True | Some b \<Rightarrow> b < v) \<and>
      (case x_max of None \<Rightarrow> True | Some b \<Rightarrow> v < b))"

definition window_events ::
  "real list \<Rightarrow> real list \<Rightarrow> real \<Rightarrow> real \<Rightarrow> real option \<Rightarrow> real option \<Rightarrow> (real \<times> real) list" where
  "window_events time x_position t_start t_stop x_min x_max =
     filter (\<lambda>e. t_start < fst e \<and> fst e < t_stop \<and> within_bounds x_min x_max (snd e))
       (zip time x_position)"

definition earliest_events :: "(real \<times> real) list \<Rightarrow> (real \<times> real) list" where
  "earliest_events evs = filter (\<lambda>e. fst e = Min (fst ` set evs)) evs"

text \<open>
  Section 4.5: the events inside the time window and inside the coordinate window
  jointly, and the velocity between the latest and the earliest of them.
\<close>

definition speed_window_events ::
  "real list \<Rightarrow> real list \<Rightarrow> real \<Rightarrow> real \<Rightarrow> real \<Rightarrow> real \<Rightarrow> (real \<times> real) list" where
  "speed_window_events time x_position t_start t_stop x_start x_stop =
     filter (\<lambda>e. t_start < fst e \<and> fst e < t_stop \<and> x_start \<le> snd e \<and> snd e \<le> x_stop)
       (zip time x_position)"

definition spec_speed :: "(real \<times> real) list \<Rightarrow> real" where
  "spec_speed evs =
     (let t_max = Max (fst ` set evs);
          t_min = Min (fst ` set evs);
          x_at_max_time = snd (hd (filter (\<lambda>e. fst e = t_max) evs));
          x_at_min_time = snd (hd (filter (\<lambda>e. fst e = t_min) evs))
      in (x_at_max_time - x_at_min_time) * (1 / 1000) / (t_max - t_min))"

text \<open>
  The indices that \<^verbatim>\<open>speed\<close> selects, in closed form.  \<open>in_time\<close> lists the indices of the
  events inside the time window.  The code intersects these indices with positions within
  that list: \<open>p\<close> is selected when it is itself the index of an event inside the time
  window and the \<open>p\<close>-th event inside the time window lies inside the coordinate window.
\<close>

definition speed_selected :: "real list \<Rightarrow> real list \<Rightarrow> real \<Rightarrow> real \<Rightarrow> real \<Rightarrow> real \<Rightarrow> nat list" where
  "speed_selected time x_position t_start t_stop x_start x_stop =
     (let in_time = filter (\<lambda>k. t_start < time ! k \<and> time ! k < t_stop) [0..<length time]
      in filter (\<lambda>p. p \<in> set in_time \<and> x_start \<le> x_position ! (in_time ! p)
                      \<and> x_position ! (in_time ! p) \<le> x_stop)
           [0..<length in_time])"

section \<open>Properties\<close>

subsection \<open>Helpers\<close>

lemma py_index_nat: "i < length xs \<Longrightarrow> py_index xs (int i) = Inr (xs ! i)"
  by (simp add: py_index_def)

lemma py_min_Min:
  assumes "xs \<noteq> []"
  shows "py_min xs = Inr (Min (set xs))"
proof (cases xs)
  case Nil
  with assms show ?thesis by simp
next
  case (Cons v vs)
  have "Min (set (v # vs)) = fold min vs v" by (rule Min.set_eq_fold)
  then show ?thesis using Cons by simp
qed

lemma ebind_Inr_iff: "ebind m f = Inr y \<longleftrightarrow> (\<exists>v. m = Inr v \<and> f v = Inr y)"
  by (cases m) (simp_all add: ebind_def)

lemma py_range_nat: "py_range 0 (int n) = map int [0..<n]"
  unfolding py_range_def
  by (induction n) (simp_all add: upto_rec2)

subsection \<open>Spike counter\<close>

lemma count_spike_loop:
  assumes "xs \<noteq> []" and "\<forall>j\<in>set js. Suc j < length xs"
  shows "for_each (map int js) (count_spike_body xs) s =
         Inr (s + int (length (filter (\<lambda>i. xs ! i = Min (set xs) \<and> xs ! i = xs ! Suc i) js)))"
  using assms
proof (induction js arbitrary: s)
  case Nil
  then show ?case by simp
next
  case (Cons j js)
  have j: "j < length xs" "Suc j < length xs" using Cons.prems by auto
  have idx: "py_index xs (int j + 1) = Inr (xs ! Suc j)"
    using py_index_nat[OF j(2)] by (simp add: add.commute)
  show ?case
    using Cons by (simp add: count_spike_body_def ebind_def py_index_nat j idx py_min_Min)
qed

text \<open>
  Claim C9.  \<^verbatim>\<open>count_spike\<close> never raises; it returns 0 for an empty list and otherwise
  1 plus the number of indices \<open>i < len - 1\<close> at which the entry equals the minimum of
  the list and equals its successor.
\<close>

theorem count_spike_counts:
  "count_spike xs = Inr (if xs = [] then 0
     else 1 + int (card {i. i < length xs - 1 \<and> xs ! i = Min (set xs) \<and> xs ! i = xs ! (i + 1)}))"
proof (cases "xs = []")
  case True
  then show ?thesis by (simp add: count_spike_def)
next
  case False
  have r: "py_range 0 (int (length xs) - 1) = map int [0..<length xs - 1]"
    using False py_range_nat[of "length xs - 1"] by (simp add: Suc_leI)
  have "length (filter (\<lambda>i. xs ! i = Min (set xs) \<and> xs ! i = xs ! Suc i) [0..<length xs - 1])
      = card {i. i < length xs - 1 \<and> xs ! i = Min (set xs) \<and> xs ! i = xs ! (i + 1)}"
  proof -
    have "{i. i < length [0..<length xs - 1] \<and> xs ! ([0..<length xs - 1] ! i) = Min (set xs)
              \<and> xs ! ([0..<length xs - 1] ! i) = xs ! Suc ([0..<length xs - 1] ! i)}
        = {i. i < length xs - 1 \<and> xs ! i = Min (set xs) \<and> xs ! i = xs ! (i + 1)}"
      by auto
    then show ?thesis by (simp only: length_filter_conv_card)
  qed
  moreover have "\<forall>j\<in>set [0..<length xs - 1]. Suc j < length xs"
    by auto
  ultimately show ?thesis
    using False count_spike_loop[of xs "[0..<length xs - 1]" 1]
    by (simp add: count_spike_def r)
qed

theorem count_spike_counts_witness:
  "count_spike [3, 1, 1, 2, 1, 1] = Inr 3 \<and>
   card {i. i < length [3, 1, 1, 2, 1, 1 :: real] - 1
          \<and> [3, 1, 1, 2, 1, 1 :: real] ! i = Min (set [3, 1, 1, 2, 1, 1])
          \<and> [3, 1, 1, 2, 1, 1 :: real] ! i = [3, 1, 1, 2, 1, 1] ! (i + 1)} = 2"
proof -
  have e: "count_spike [3, 1, 1, 2, 1, 1] = Inr 3"
    by (simp add: count_spike_def py_range_def upto_rec1 count_spike_body_def ebind_def
        py_index_def)
  show ?thesis
    using count_spike_counts[of "[3, 1, 1, 2, 1, 1]"] unfolding e by simp
qed

subsection \<open>Spike detector: bounds of the voltage reads\<close>












text \<open>For instance, seven samples per row and \<open>t_stop = 7\<close>: the crossing test at the last
  scanned index \<open>j = 6\<close> reads column 7.\<close>

lemma spike_detection_last_column_raises:
  "spike_detection [[-1, -1, -1, -1, -1, -1, -1]] [0, 1, 2, 3, 4, 5, 6] [250] [0] 0 1 0 7 2 1
   = Inl IndexError"
  by (simp add: spike_detection_def scan_row_def py_div_def ebind_def py_int_def py_range_def
      upto_rec1 detect_step_def spike_condition_def py_index_def empty_raster_def)

subsection \<open>NumPy selections\<close>

lemma intersect1d_filters:
  "intersect1d (filter P [0..<n]) (filter Q [0..<n]) = filter (\<lambda>k. P k \<and> Q k) [0..<n]"
proof -
  have "filter (\<lambda>k. k \<in> set (filter Q [0..<n])) (filter P [0..<n]) = filter (\<lambda>k. P k \<and> Q k) [0..<n]"
    by (auto intro: filter_cong)
  moreover have "distinct (filter (\<lambda>k. P k \<and> Q k) [0..<n])" by simp
  moreover have "sorted (filter (\<lambda>k. P k \<and> Q k) [0..<n])" by (simp add: sorted_filter[where f = id, simplified])
  ultimately show ?thesis
    by (simp add: intersect1d_def distinct_remdups_id sorted_sort_id)
qed

lemma intersect1d_where:
  "length xs = length ys \<Longrightarrow>
   intersect1d (np_where p xs) (np_where q ys) = filter (\<lambda>k. p (xs ! k) \<and> q (ys ! k)) [0..<length xs]"
  by (simp add: np_where_def intersect1d_filters)

lemma intersect1d_arange_where_left:
  "intersect1d [0..<length xs] (np_where q xs) = np_where q xs"
  using intersect1d_filters[of "\<lambda>k. True" "length xs" "\<lambda>k. q (xs ! k)"]
  by (simp add: np_where_def)

lemma intersect1d_where_arange:
  "intersect1d (np_where p xs) [0..<length xs] = np_where p xs"
  using intersect1d_filters[of "\<lambda>k. p (xs ! k)" "length xs" "\<lambda>k. True"]
  by (simp add: np_where_def)

lemma intersect1d_arange_arange:
  "intersect1d [0..<n] [0..<n] = [0..<n]"
  using intersect1d_filters[of "\<lambda>k. True" n "\<lambda>k. True"] by simp

lemma filter_by_index:
  "map (\<lambda>k. ys ! k) (filter (\<lambda>k. R (ys ! k)) [0..<length ys]) = filter R ys"
proof (induction ys rule: rev_induct)
  case Nil
  then show ?case by simp
next
  case (snoc y ys)
  have "map (\<lambda>k. (ys @ [y]) ! k) (filter (\<lambda>k. R ((ys @ [y]) ! k)) [0..<length ys])
      = map (\<lambda>k. ys ! k) (filter (\<lambda>k. R (ys ! k)) [0..<length ys])"
    by (auto simp: nth_append intro!: map_cong filter_cong)
  then show ?case using snoc by simp
qed

lemma np_take_indices:
  assumes "set idx \<subseteq> {0..<length ys}"
  shows "np_take (map f ys) idx = Inr (map (\<lambda>k. f (ys ! k)) idx)"
proof -
  from assms have "list_all (\<lambda>k. k < length (map f ys)) idx"
    by (auto simp: list_all_iff)
  moreover have "map (\<lambda>k. map f ys ! k) idx = map (\<lambda>k. f (ys ! k)) idx"
    using assms by (auto intro!: map_cong)
  ultimately show ?thesis by (simp add: np_take_def)
qed

lemma np_take_selected:
  "np_take (map f ys) (filter (\<lambda>k. R (ys ! k)) [0..<length ys]) = Inr (map f (filter R ys))"
proof -
  have "np_take (map f ys) (filter (\<lambda>k. R (ys ! k)) [0..<length ys])
      = Inr (map (\<lambda>k. f (ys ! k)) (filter (\<lambda>k. R (ys ! k)) [0..<length ys]))"
    by (rule np_take_indices) auto
  also have "map (\<lambda>k. f (ys ! k)) (filter (\<lambda>k. R (ys ! k)) [0..<length ys])
      = map f (map (\<lambda>k. ys ! k) (filter (\<lambda>k. R (ys ! k)) [0..<length ys]))"
    by simp
  finally show ?thesis by (simp only: filter_by_index)
qed

lemma np_where_map:
  "np_where p (map f ys) = filter (\<lambda>k. p (f (ys ! k))) [0..<length ys]"
  by (auto simp: np_where_def intro: filter_cong)

lemma intersect1d_where_map:
  "intersect1d (np_where p (map f ys)) (np_where q (map g ys))
   = filter (\<lambda>k. p (f (ys ! k)) \<and> q (g (ys ! k))) [0..<length ys]"
  by (simp add: np_where_map intersect1d_filters)

lemma py_min_map_fst:
  assumes "evs \<noteq> []"
  shows "py_min (map fst evs) = Inr (Min (fst ` set evs))"
  using py_min_Min[of "map fst evs"] assms by simp

subsection \<open>Origin query\<close>

lemma bound_indexes_lower:
  "(case x_min of Some b \<Rightarrow> np_where (\<lambda>v. v > b) (map snd ys) | None \<Rightarrow> [0..<length (map snd ys)])
   = filter (\<lambda>k. case x_min of None \<Rightarrow> True | Some b \<Rightarrow> b < snd (ys ! k)) [0..<length ys]"
  by (cases x_min) (simp_all add: np_where_map)

lemma bound_indexes_upper:
  "(case x_max of Some b \<Rightarrow> np_where (\<lambda>v. v < b) (map snd ys) | None \<Rightarrow> [0..<length (map snd ys)])
   = filter (\<lambda>k. case x_max of None \<Rightarrow> True | Some b \<Rightarrow> snd (ys ! k) < b) [0..<length ys]"
  by (cases x_max) (simp_all add: np_where_map)

lemma find_spike_origin_stages:
  assumes key: "(case my_key of None \<Rightarrow> default_key_prefix my_dict | Some k \<Rightarrow> Some k) = Some prefix"
    and time: "my_dict (prefix @ ''_time'') = Some (Array time)"
    and xpos: "my_dict (prefix @ ''_x_position'') = Some (Array x_position)"
    and len: "length time = length x_position"
    and stop: "resolve_t_stop my_dict t_stop = Inr t_end"
  shows "find_spike_origin my_dict my_key t_start t_stop x_min x_max =
           ebind (py_min (map fst (window_events time x_position t_start t_end x_min x_max)))
             (\<lambda>earliest. Inr (Origin
                (map fst (filter (\<lambda>e. fst e = earliest)
                           (window_events time x_position t_start t_end x_min x_max)))
                (map snd (filter (\<lambda>e. fst e = earliest)
                           (window_events time x_position t_start t_end x_min x_max)))))"
proof -
  define ys where "ys = zip time x_position"
  have t: "time = map fst ys" and x: "x_position = map snd ys"
    using len by (simp_all add: ys_def)
  define ys1 where "ys1 = filter (\<lambda>e. t_start < fst e \<and> fst e < t_end) ys"
  define ys2 where "ys2 = filter (\<lambda>e. within_bounds x_min x_max (snd e)) ys1"
  have good: "intersect1d (np_where (\<lambda>v. v > t_start) time) (np_where (\<lambda>v. v < t_end) time)
              = filter (\<lambda>k. (\<lambda>e. t_start < fst e \<and> fst e < t_end) (ys ! k)) [0..<length ys]"
    unfolding t by (simp add: intersect1d_where_map)
  have gt: "np_take time (filter (\<lambda>k. (\<lambda>e. t_start < fst e \<and> fst e < t_end) (ys ! k)) [0..<length ys])
            = Inr (map fst ys1)"
    unfolding t ys1_def by (rule np_take_selected)
  have gx: "np_take x_position (filter (\<lambda>k. (\<lambda>e. t_start < fst e \<and> fst e < t_end) (ys ! k)) [0..<length ys])
            = Inr (map snd ys1)"
    unfolding x ys1_def by (rule np_take_selected)
  have goodx: "intersect1d
       (case x_min of Some b \<Rightarrow> np_where (\<lambda>v. v > b) (map snd ys1) | None \<Rightarrow> [0..<length (map snd ys1)])
       (case x_max of Some b \<Rightarrow> np_where (\<lambda>v. v < b) (map snd ys1) | None \<Rightarrow> [0..<length (map snd ys1)])
     = filter (\<lambda>k. (\<lambda>e. within_bounds x_min x_max (snd e)) (ys1 ! k)) [0..<length ys1]"
    unfolding bound_indexes_lower bound_indexes_upper
    by (simp add: intersect1d_filters within_bounds_def)
  have ct: "np_take (map fst ys1) (filter (\<lambda>k. (\<lambda>e. within_bounds x_min x_max (snd e)) (ys1 ! k)) [0..<length ys1])
            = Inr (map fst ys2)"
    unfolding ys2_def by (rule np_take_selected)
  have cx: "np_take (map snd ys1) (filter (\<lambda>k. (\<lambda>e. within_bounds x_min x_max (snd e)) (ys1 ! k)) [0..<length ys1])
            = Inr (map snd ys2)"
    unfolding ys2_def by (rule np_take_selected)
  have st: "\<And>m. np_take (map fst ys2) (np_where (\<lambda>v. v = m) (map fst ys2))
            = Inr (map fst (filter (\<lambda>e. fst e = m) ys2))"
    unfolding np_where_map by (rule np_take_selected)
  have sx: "\<And>m. np_take (map snd ys2) (np_where (\<lambda>v. v = m) (map fst ys2))
            = Inr (map snd (filter (\<lambda>e. fst e = m) ys2))"
    unfolding np_where_map by (rule np_take_selected)
  have w: "window_events time x_position t_start t_end x_min x_max = ys2"
    by (auto simp: window_events_def ys2_def ys1_def ys_def intro: filter_cong)
  have ga: "get_array my_dict (prefix @ ''_time'') = Inr time"
    "get_array my_dict (prefix @ ''_x_position'') = Inr x_position"
    by (simp_all add: get_array_def dict_get_def ebind_def time xpos)
  show ?thesis
    unfolding find_spike_origin_def w
    by (simp add: stop key ga ebind_def Let_def good gt gx goodx ct cx st sx split: sum.splits)
qed

subsection \<open>Last-occurrence query in both directions\<close>

text \<open>
  Claim C4: queried in both directions, the last-occurrence query pairs the latest event
  below \<open>x_start\<close> with the latest event above \<open>x_start\<close>, each with its own time and
  coordinate.  The code does not.  Four events at 1, 2, 3, 4 ms and 0, 1000, 2000, 4000 um,
  start coordinate 1500 um: the lower partition ends with (2 ms, 1000 um), the upper one
  with (4 ms, 4000 um).  The query in both directions returns the lower extremum alone, as
  two scalars; the upper extremum is not part of the result.  With the start coordinate at
  500 um the index of the upper extremum in its partition is out of range for the lower
  partition, which the second entry of the list display subscripts, and the query raises.
\<close>

theorem find_spike_last_occurance_both_lower_only:
  "find_spike_last_occurance
     [''tstop'' \<mapsto> Float 10,
      ''V_mem_raster_position'' \<mapsto> IntArray [0, 1, 2, 3],
      ''V_mem_raster_x_position'' \<mapsto> Array [0, 1000, 2000, 4000],
      ''V_mem_raster_time'' \<mapsto> Array [1, 2, 3, 4]]
     None 0 0 ''both'' 1500
   = Inr (Last (Scalar 2) (Scalar 1000))
   \<and> find_spike_last_occurance
     [''tstop'' \<mapsto> Float 10,
      ''V_mem_raster_position'' \<mapsto> IntArray [0, 1, 2, 3],
      ''V_mem_raster_x_position'' \<mapsto> Array [0, 1000, 2000, 4000],
      ''V_mem_raster_time'' \<mapsto> Array [1, 2, 3, 4]]
     None 0 0 ''both'' 500
   = Inl IndexError"
  by (simp add: find_spike_last_occurance_def resolve_t_stop_def get_float_def get_array_def
      dict_get_def ebind_def default_key_prefix_def np_where_compare_def np_compare_def
      np_where_def intersect1d_def np_take_def spike_partition_def last_spike_index_def
      py_index_def)

subsection \<open>Conduction velocity\<close>

text \<open>
  Claim C5: \<^verbatim>\<open>speed\<close> keeps exactly the events inside the time window and the coordinate
  window jointly and returns \<open>(x_at_max_time - x_at_min_time) * 1e-3 / (t_max - t_min)\<close>
  over them.  The code does not.  \<^verbatim>\<open>good_indexes_position\<close> holds positions within the
  time-filtered sub-array, \<^verbatim>\<open>good_indexes_time\<close> holds indices of the full array, and
  \<^verbatim>\<open>speed\<close> intersects the two.  Four events at 1, 2, 3, 4 ms and 0, 1000, 2000, 4000 um,
  \<open>L = 5000\<close>, time window from 1.5 ms to \<^verbatim>\<open>tstop\<close>: the events inside both windows are
  the last three, for which the formula of the claim gives \<open>(4000 - 1000) * 1e-3 / (4 - 2)\<close>
  \<open>= 1.5\<close>; the code selects the second and third event only and returns \<open>1.0\<close>.
\<close>

theorem speed_mixes_index_spaces:
  "speed
     [''tstop'' \<mapsto> Float 10, ''L'' \<mapsto> Float 5000,
      ''V_mem_raster_position'' \<mapsto> IntArray [0, 1, 2, 3],
      ''V_mem_raster_x_position'' \<mapsto> Array [0, 1000, 2000, 4000],
      ''V_mem_raster_time'' \<mapsto> Array [1, 2, 3, 4]]
     None (3 / 2) 0 0 0
   = Inr (Speed (Finite 1))
   \<and> speed_window_events [1, 2, 3, 4] [0, 1000, 2000, 4000] (3 / 2) 10 0 5000
     = [(2, 1000), (3, 2000), (4, 4000)]
   \<and> spec_speed (speed_window_events [1, 2, 3, 4] [0, 1000, 2000, 4000] (3 / 2) 10 0 5000) = 3 / 2"
proof -
  have "speed
     [''tstop'' \<mapsto> Float 10, ''L'' \<mapsto> Float 5000,
      ''V_mem_raster_position'' \<mapsto> IntArray [0, 1, 2, 3],
      ''V_mem_raster_x_position'' \<mapsto> Array [0, 1000, 2000, 4000],
      ''V_mem_raster_time'' \<mapsto> Array [1, 2, 3, 4]]
     None (3 / 2) 0 0 0
   = Inr (Speed (Finite 1))"
    by (simp add: speed_def resolve_t_stop_def resolve_t_start_def get_float_def dict_get_def
        ebind_def default_key_prefix_def get_array_def speed_selection_def np_where_def
        intersect1d_def np_take_def speed_value_def np_argmax_def np_argmin_def first_index_def
        py_index_def np_true_divide_def)
  moreover have w: "speed_window_events [1, 2, 3, 4] [0, 1000, 2000, 4000] (3 / 2) 10 0 5000
     = [(2, 1000), (3, 2000), (4, 4000)]"
    by (simp add: speed_window_events_def)
  moreover have "spec_speed [(2, 1000), (3, 2000), (4, 4000)] = 3 / 2"
    by (simp add: spec_speed_def)
  ultimately show ?thesis by simp
qed

lemma py_max_Max:
  assumes "xs \<noteq> []"
  shows "py_max xs = Inr (Max (set xs))"
proof (cases xs)
  case Nil
  with assms show ?thesis by simp
next
  case (Cons v vs)
  have "Max (set (v # vs)) = fold max vs v" by (rule Max.set_eq_fold)
  then show ?thesis using Cons by simp
qed

text \<open>The last lines of \<^verbatim>\<open>speed\<close> on a selection with fewer than two distinct times.\<close>

lemma speed_value_degenerate:
  assumes "length good_spike_positions = length good_spike_times"
    and "card (set good_spike_times) < 2"
  shows "speed_value good_spike_times good_spike_positions =
           (if good_spike_times = [] then Inl ValueError else Inr NaN)"
proof (cases good_spike_times)
  case Nil
  then show ?thesis by (simp add: speed_value_def np_argmax_def ebind_def)
next
  case (Cons a as)
  have "set good_spike_times \<noteq> {}" using Cons by simp
  then have "card (set good_spike_times) = 1"
    using assms(2) by (simp add: card_gt_0_iff less_2_cases_iff)
  then obtain c where c: "set good_spike_times = {c}" by (auto simp: card_1_singleton_iff)
  then have "a = c" using Cons by auto
  then have mx: "Max (set good_spike_times) = a" and mn: "Min (set good_spike_times) = a"
    using c by simp_all
  have ne: "good_spike_times \<noteq> []" using Cons by simp
  have first: "first_index (\<lambda>v. v = a) good_spike_times = 0"
    by (simp add: first_index_def Cons)
  have amax: "np_argmax good_spike_times = Inr 0"
    by (simp add: np_argmax_def py_max_Max[OF ne] mx first ebind_def)
  have amin: "np_argmin good_spike_times = Inr 0"
    by (simp add: np_argmin_def py_min_Min[OF ne] mn first ebind_def)
  obtain p ps where p: "good_spike_positions = p # ps"
    using assms(1) Cons by (cases good_spike_positions) auto
  have ip: "py_index good_spike_positions 0 = Inr p"
    by (simp add: py_index_def p)
  have it: "py_index good_spike_times 0 = Inr a"
    by (simp add: py_index_def Cons)
  have "speed_value good_spike_times good_spike_positions = Inr NaN"
    unfolding speed_value_def amax amin
    by (simp add: ebind_def ip it np_true_divide_def)
  then show ?thesis using ne by simp
qed

text \<open>
  The claim as stated fails: one event inside the window, and \<^verbatim>\<open>speed\<close> returns the
  float \<open>nan\<close> of the division \<open>0/0\<close>.
\<close>

theorem speed_single_event_counterexample:
  "speed
     [''tstop'' \<mapsto> Float 10, ''L'' \<mapsto> Float 5000,
      ''V_mem_raster_position'' \<mapsto> IntArray [0],
      ''V_mem_raster_x_position'' \<mapsto> Array [1000],
      ''V_mem_raster_time'' \<mapsto> Array [1]]
     None 0 0 0 0
   = Inr (Speed NaN)"
  by (simp add: speed_def resolve_t_stop_def resolve_t_start_def get_float_def dict_get_def
      ebind_def default_key_prefix_def get_array_def speed_selection_def np_where_def
      intersect1d_def np_take_def speed_value_def np_argmax_def np_argmin_def first_index_def
      py_index_def np_true_divide_def)

subsection \<open>Block detector\<close>

lemma block_stages:
  assumes key: "default_key_prefix my_dict = Some prefix"
    and time: "my_dict (prefix @ ''_time'') = Some (Array time)"
    and xpos: "my_dict (prefix @ ''_x_position'') = Some (Array x_position)"
    and len: "length time = length x_position"
    and stop: "resolve_t_stop my_dict t_stop = Inr t_end"
    and start: "resolve_t_start my_dict t_start = Inr t_begin"
    and stim: "my_dict ''intra_stim_positions'' = Some (Float stim)"
    and electrode: "my_dict ''extracellular_electrode_x'' = Some (Float electrode)"
    and l: "my_dict ''L'' = Some (Float l)"
  shows "block my_dict None t_start t_stop =
           (let positions = map snd (filter (\<lambda>e. t_begin < fst e \<and> fst e < t_end)
                                       (zip time x_position))
            in if stim < electrode
               then ebind (py_max positions) (\<lambda>furthest. Inr (Some (furthest < 9 / 10 * l)))
               else ebind (py_min positions) (\<lambda>nearest. Inr (Some (nearest > 1 / 10 * l))))"
proof -
  define ys where "ys = zip time x_position"
  have t: "time = map fst ys" and x: "x_position = map snd ys"
    using len by (simp_all add: ys_def)
  define ys1 where "ys1 = filter (\<lambda>e. t_begin < fst e \<and> fst e < t_end) ys"
  have good: "intersect1d (np_where (\<lambda>v. v > t_begin) time) (np_where (\<lambda>v. v < t_end) time)
              = filter (\<lambda>k. (\<lambda>e. t_begin < fst e \<and> fst e < t_end) (ys ! k)) [0..<length ys]"
    unfolding t by (simp add: intersect1d_where_map)
  have gt: "np_take time (filter (\<lambda>k. (\<lambda>e. t_begin < fst e \<and> fst e < t_end) (ys ! k)) [0..<length ys])
            = Inr (map fst ys1)"
    unfolding t ys1_def by (rule np_take_selected)
  have gx: "np_take x_position (filter (\<lambda>k. (\<lambda>e. t_begin < fst e \<and> fst e < t_end) (ys ! k)) [0..<length ys])
            = Inr (map snd ys1)"
    unfolding x ys1_def by (rule np_take_selected)
  have ga: "get_array my_dict (prefix @ ''_time'') = Inr time"
    "get_array my_dict (prefix @ ''_x_position'') = Inr x_position"
    by (simp_all add: get_array_def dict_get_def ebind_def time xpos)
  have gf: "get_float my_dict ''intra_stim_positions'' = Inr stim"
    "get_float my_dict ''extracellular_electrode_x'' = Inr electrode"
    "get_float my_dict ''L'' = Inr l"
    by (simp_all add: get_float_def dict_get_def ebind_def stim electrode l)
  have "block my_dict None t_start t_stop =
           (if stim < electrode
            then ebind (py_max (map snd ys1)) (\<lambda>furthest. Inr (Some (furthest < 9 / 10 * l)))
            else ebind (py_min (map snd ys1)) (\<lambda>nearest. Inr (Some (nearest > 1 / 10 * l))))"
    unfolding block_def
    by (simp add: stop start key ga gf ebind_def Let_def good gt gx stim
        array_equals_empty_list_def split: sum.splits)
  then show ?thesis by (simp add: ys1_def ys_def)
qed

lemma block_with_events:
  assumes "default_key_prefix my_dict = Some prefix"
    and "my_dict (prefix @ ''_time'') = Some (Array time)"
    and "my_dict (prefix @ ''_x_position'') = Some (Array x_position)"
    and "length time = length x_position"
    and "resolve_t_stop my_dict t_stop = Inr t_end"
    and "resolve_t_start my_dict t_start = Inr t_begin"
    and "my_dict ''intra_stim_positions'' = Some (Float stim)"
    and "my_dict ''extracellular_electrode_x'' = Some (Float electrode)"
    and "my_dict ''L'' = Some (Float l)"
    and "positions = map snd (filter (\<lambda>e. t_begin < fst e \<and> fst e < t_end) (zip time x_position))"
    and "positions \<noteq> []"
  shows "block my_dict None t_start t_stop =
           Inr (Some (if stim < electrode then Max (set positions) < 9 / 10 * l
                      else Min (set positions) > 1 / 10 * l))"
  unfolding block_stages[OF assms(1-9)] assms(10)[symmetric]
  by (simp add: py_max_Max[OF assms(11)] py_min_Min[OF assms(11)] ebind_def)

lemma block_without_events:
  assumes "default_key_prefix my_dict = Some prefix"
    and "my_dict (prefix @ ''_time'') = Some (Array time)"
    and "my_dict (prefix @ ''_x_position'') = Some (Array x_position)"
    and "length time = length x_position"
    and "resolve_t_stop my_dict t_stop = Inr t_end"
    and "resolve_t_start my_dict t_start = Inr t_begin"
    and "my_dict ''intra_stim_positions'' = Some (Float stim)"
    and "my_dict ''extracellular_electrode_x'' = Some (Float electrode)"
    and "my_dict ''L'' = Some (Float l)"
    and "filter (\<lambda>e. t_begin < fst e \<and> fst e < t_end) (zip time x_position) = []"
  shows "block my_dict None t_start t_stop = Inl ValueError"
  unfolding block_stages[OF assms(1-9)] assms(10)
  by (simp add: ebind_def)

lemma block_without_raster:
  assumes "default_key_prefix my_dict = None"
    and "resolve_t_stop my_dict t_stop = Inr t_end"
    and "resolve_t_start my_dict t_start = Inr t_begin"
  shows "block my_dict None t_start t_stop = Inr (Some False)"
  by (simp add: block_def assms ebind_def)

text \<open>
  Claim C8: \<^verbatim>\<open>block\<close> returns a result of its own, and does not raise, when no spike
  event falls inside the time window.  The code does not (it agrees with the rest of the
  claim: \<open>block_without_raster\<close>, \<open>block_with_events\<close>).  The
  stimulation starts at 5 ms, the four events of the raster are earlier, and the
  stimulation is proximal to the electrode: the comparison of the empty array with \<^verbatim>\<open>[]\<close>
  does not hold, the function goes on to \<^verbatim>\<open>max(blocked_spike_positionlist)\<close> and raises
  \<^verbatim>\<open>ValueError\<close> instead of returning \<^verbatim>\<open>None\<close>.
\<close>

theorem block_empty_window_raises:
  "block
     [''tstop'' \<mapsto> Float 10, ''L'' \<mapsto> Float 5000,
      ''intra_stim_starts'' \<mapsto> PyList [5],
      ''intra_stim_positions'' \<mapsto> Float 0,
      ''extracellular_electrode_x'' \<mapsto> Float 2500,
      ''V_mem_raster_position'' \<mapsto> IntArray [0, 1, 2, 3],
      ''V_mem_raster_x_position'' \<mapsto> Array [0, 1000, 2000, 4000],
      ''V_mem_raster_time'' \<mapsto> Array [1, 2, 3, 4]]
     None 0 0
   = Inl ValueError"
  by (simp add: block_def resolve_t_stop_def resolve_t_start_def get_float_def dict_get_def
      ebind_def default_key_prefix_def get_array_def np_where_def intersect1d_def np_take_def
      array_equals_empty_list_def)

subsection \<open>Notch filter stage\<close>

text \<open>
  Claim C7: for a sequence of frequencies every notch is applied to the full row that the
  previous notch produced, and the result is stored under \<^verbatim>\<open><key>_filtered\<close>.  The code
  does not.  One row \<open>[a, b]\<close>, \<open>dt = 0.01\<close> and the sequence of one
  frequency \<open>[f]\<close>: whatever SciPy's two functions compute, \<^verbatim>\<open>lfilter\<close> receives the single
  sample \<open>a = new_sig[0,:][0]\<close> and not the row; the sample \<open>b\<close> does not reach the filter,
  and the filtered row is the broadcast of what \<^verbatim>\<open>lfilter\<close> returns for that scalar.
\<close>

theorem filter_freq_sequence_filters_one_sample:
  "filter_freq iirnotch lfilter
     [''dt'' \<mapsto> Float (1 / 100), ''V_mem'' \<mapsto> Matrix [[a, b]]] ''V_mem'' (Frequencies [f]) Q
   = ebind (iirnotch f Q 100) (\<lambda>coeffs.
     ebind (lfilter coeffs (Scalar a)) (\<lambda>filtered.
     ebind (assign_row 2 filtered) (\<lambda>new_row.
       Inr (Some [''dt'' \<mapsto> Float (1 / 100), ''V_mem'' \<mapsto> Matrix [[a, b]],
                  ''V_mem_filtered'' \<mapsto> Matrix [new_row]]))))"
  by (auto simp add: filter_freq_def get_float_def get_matrix_def dict_get_def ebind_def
      py_div_def py_index_def numeral_2_eq_2 split: sum.splits)

text \<open>The branch for a single frequency passes the whole row.\<close>

lemma filter_freq_single_filters_row:
  "filter_freq iirnotch lfilter
     [''dt'' \<mapsto> Float (1 / 100), ''V_mem'' \<mapsto> Matrix [[a, b]]] ''V_mem'' (Frequency f) Q
   = ebind (iirnotch f Q 100) (\<lambda>coeffs.
     ebind (lfilter coeffs (Vec [a, b])) (\<lambda>filtered.
     ebind (assign_row 2 filtered) (\<lambda>new_row.
       Inr (Some [''dt'' \<mapsto> Float (1 / 100), ''V_mem'' \<mapsto> Matrix [[a, b]],
                  ''V_mem_filtered'' \<mapsto> Matrix [new_row]]))))"
  by (auto simp add: filter_freq_def get_float_def get_matrix_def dict_get_def ebind_def
      py_div_def numeral_2_eq_2 split: sum.splits)

subsection \<open>Spike detector: the code against the specification's wording\<close>

lemma fl_spike_condition_spec:
  assumes "fl_spike_condition ops Voltage thr dt t_stop t_refractory t_min_spike i j t_prev = Inr b"
    and inv: "fl_recip ops dt = Inr inv_dt"
  shows "b = spec_accepts ops (fl_int ops (fl_mul ops t_min_spike inv_dt)) Voltage thr dt t_stop
               t_refractory i j t_prev"
proof -
  from assms(1) obtain row v0 where row: "py_index Voltage i = Inr row"
    and v0: "py_index row j = Inr v0"
    unfolding fl_spike_condition_def by (auto simp: ebind_Inr_iff)
  have sv: "\<And>k v. py_index row k = Inr v \<Longrightarrow> spec_sample Voltage i k = Some v"
    by (simp add: spec_sample_def row)
  show ?thesis
  proof (cases "fl_le ops v0 thr")
    case False
    then show ?thesis using assms(1) sv[OF v0]
      by (simp add: fl_spike_condition_def ebind_def row v0 spec_accepts_def)
  next
    case le: True
    from assms(1) le obtain v1 where v1: "py_index row (j + 1) = Inr v1"
      unfolding fl_spike_condition_def by (auto simp: ebind_Inr_iff row v0 split: if_splits)
    show ?thesis
    proof (cases "fl_le ops thr v1")
      case False
      then show ?thesis using assms(1) le sv[OF v0] sv[OF v1]
        by (simp add: fl_spike_condition_def ebind_def row v0 v1 spec_accepts_def)
    next
      case ge: True
      from assms le ge obtain v2 where
        v2: "py_index row (min (j + fl_int ops (fl_mul ops t_min_spike inv_dt)) t_stop) = Inr v2"
        unfolding fl_spike_condition_def
        by (auto simp: ebind_Inr_iff row v0 v1 split: if_splits)
      show ?thesis using assms le ge sv[OF v0] sv[OF v1] sv[OF v2]
        by (auto simp add: fl_spike_condition_def ebind_def row v0 v1 v2 spec_accepts_def
            split: if_splits)
    qed
  qed
qed

lemma extends_by_Nil: "extends_by t x r r []"
  by (simp add: extends_by_def)

lemma extends_by_trans:
  "extends_by t x r r1 ps \<Longrightarrow> extends_by t x r1 r2 qs \<Longrightarrow> extends_by t x r r2 (ps @ qs)"
  by (simp add: extends_by_def)

lemma fl_detect_step_spec:
  assumes "fl_detect_step ops Voltage t x thr dt t_stop t_refractory t_min_spike i j (r, t_prev)
           = Inr (r', t_prev')"
    and inv: "fl_recip ops dt = Inr inv_dt"
  shows "if spec_accepts ops (fl_int ops (fl_mul ops t_min_spike inv_dt)) Voltage thr dt t_stop
              t_refractory i j t_prev
         then extends_by t x r r' [(i, j)] \<and> t_prev' = fl_mul ops (fl_of_int ops j) dt
         else r' = r \<and> t_prev' = t_prev"
proof -
  from assms(1) obtain b where
    b: "fl_spike_condition ops Voltage thr dt t_stop t_refractory t_min_spike i j t_prev = Inr b"
    unfolding fl_detect_step_def by (auto simp: ebind_Inr_iff)
  note acc = fl_spike_condition_spec[OF b inv]
  show ?thesis
  proof (cases b)
    case True
    with assms(1) b obtain xi tj where "py_index x i = Inr xi" "py_index t j = Inr tj"
      unfolding fl_detect_step_def by (auto simp: ebind_Inr_iff)
    then show ?thesis using assms(1) b True acc
      by (auto simp: fl_detect_step_def ebind_def extends_by_def)
  next
    case False
    then show ?thesis using assms(1) b acc
      by (auto simp: fl_detect_step_def ebind_def)
  qed
qed

lemma fl_inner_loop_spec:
  assumes "for_each js (fl_detect_step ops Voltage t x thr dt t_stop t_refractory t_min_spike i)
             (r, t_prev) = Inr (r', t_prev')"
    and inv: "fl_recip ops dt = Inr inv_dt"
  shows "extends_by t x r r' (map (Pair i)
            (spec_scan ops (spec_accepts ops (fl_int ops (fl_mul ops t_min_spike inv_dt)) Voltage
                              thr dt t_stop t_refractory i) dt js t_prev))"
  using assms(1)
proof (induction js arbitrary: r t_prev)
  case Nil
  then show ?case by (simp add: extends_by_Nil)
next
  case (Cons j js)
  from Cons.prems obtain r1 t_prev1 where
    step: "fl_detect_step ops Voltage t x thr dt t_stop t_refractory t_min_spike i j (r, t_prev)
           = Inr (r1, t_prev1)"
    and rest: "for_each js (fl_detect_step ops Voltage t x thr dt t_stop t_refractory t_min_spike i)
                 (r1, t_prev1) = Inr (r', t_prev')"
    by (auto split: sum.splits)
  note s = fl_detect_step_spec[OF step inv]
  note ih = Cons.IH[OF rest]
  show ?case
  proof (cases "spec_accepts ops (fl_int ops (fl_mul ops t_min_spike inv_dt)) Voltage thr dt t_stop
                  t_refractory i j t_prev")
    case True
    with s have "extends_by t x r r1 [(i, j)]" and "t_prev1 = fl_mul ops (fl_of_int ops j) dt"
      by simp_all
    with ih True show ?thesis
      using extends_by_trans[of t x r r1 "[(i, j)]" r'] by simp
  next
    case False
    then show ?thesis using s ih by simp
  qed
qed

lemma fl_scan_row_spec:
  assumes "fl_scan_row ops Voltage t x thr dt t_start t_stop t_refractory t_min_spike i r = Inr r'"
  shows "\<exists>inv_dt. fl_recip ops dt = Inr inv_dt \<and>
           extends_by t x r r' (map (Pair i)
             (spec_row_spikes ops (fl_int ops (fl_mul ops t_start inv_dt))
                (fl_int ops (fl_mul ops t_min_spike inv_dt)) Voltage thr dt t_start t_stop
                t_refractory i))"
proof -
  from assms obtain inv_dt st where inv: "fl_recip ops dt = Inr inv_dt"
    and loop: "for_each [fl_int ops (fl_mul ops t_start inv_dt)..t_stop - 1]
       (fl_detect_step ops Voltage t x thr dt t_stop t_refractory t_min_spike i)
       (r, fl_sub ops t_start t_refractory) = Inr st" and r': "r' = fst st"
    by (auto simp: fl_scan_row_def ebind_Inr_iff py_range_def Let_def)
  obtain r1 t1 where st: "st = (r1, t1)" by (cases st)
  from fl_inner_loop_spec[OF loop[unfolded st] inv] inv r' st show ?thesis
    by (auto simp: spec_row_spikes_def)
qed

lemma fl_outer_loop_spec:
  assumes "for_each is (fl_scan_row ops Voltage t x thr dt t_start t_stop t_refractory t_min_spike) r
           = Inr r'"
    and "is \<noteq> [] \<longrightarrow> fl_recip ops dt = Inr inv_dt"
  shows "extends_by t x r r'
           (spec_spikes ops (fl_int ops (fl_mul ops t_start inv_dt))
              (fl_int ops (fl_mul ops t_min_spike inv_dt)) Voltage is thr dt t_start t_stop
              t_refractory)"
  using assms
proof (induction "is" arbitrary: r)
  case Nil
  then show ?case by (simp add: extends_by_Nil spec_spikes_def)
next
  case (Cons i "is")
  from Cons.prems obtain r1 where
    row: "fl_scan_row ops Voltage t x thr dt t_start t_stop t_refractory t_min_spike i r = Inr r1"
    and rest: "for_each is (fl_scan_row ops Voltage t x thr dt t_start t_stop t_refractory
                 t_min_spike) r1 = Inr r'"
    by (auto split: sum.splits)
  from Cons.prems have inv: "fl_recip ops dt = Inr inv_dt" by simp
  from fl_scan_row_spec[OF row] inv have
    a: "extends_by t x r r1 (map (Pair i)
             (spec_row_spikes ops (fl_int ops (fl_mul ops t_start inv_dt))
                (fl_int ops (fl_mul ops t_min_spike inv_dt)) Voltage thr dt t_start t_stop
                t_refractory i))" by auto
  from Cons.IH[OF rest] inv have
    b: "extends_by t x r1 r'
           (spec_spikes ops (fl_int ops (fl_mul ops t_start inv_dt))
              (fl_int ops (fl_mul ops t_min_spike inv_dt)) Voltage is thr dt t_start t_stop
              t_refractory)" by simp
  from extends_by_trans[OF a b] show ?case by (simp add: spec_spikes_def)
qed

lemma fl_spike_detection_recip:
  assumes "fl_spike_detection ops Voltage t x list_to_parse thr dt t_start t_stop t_refractory
             t_min_spike = Inr out"
  shows "\<exists>inv_dt. list_to_parse \<noteq> [] \<longrightarrow> fl_recip ops dt = Inr inv_dt"
proof (cases list_to_parse)
  case Nil
  then show ?thesis by simp
next
  case (Cons i rest)
  with assms obtain r1 where
    "fl_scan_row ops Voltage t x thr dt t_start t_stop t_refractory t_min_spike i fl_empty_raster
     = Inr r1"
    by (auto simp: fl_spike_detection_def split: sum.splits)
  from fl_scan_row_spec[OF this] show ?thesis by blast
qed

text \<open>
  Claim C1 (amended).  Whenever \<^verbatim>\<open>spike_detection\<close> returns, in whatever arithmetic it
  computes, its output is that of the specification's scan, row after row in the order of
  \<open>list_to_parse\<close>, with the first index and the minimum-duration offset obtained by
  \<^verbatim>\<open>int(...)\<close> and not by rounding: per row \<open>t_last_spike\<close> starts at
  \<open>t_start - t_refractory\<close>, the indices from \<^verbatim>\<open>int(t_start*(1/dt))\<close> to \<open>t_stop - 1\<close> are
  visited in order, a spike is recorded at \<open>j\<close> iff \<open>Voltage[i][j] \<le> thr\<close>,
  \<open>Voltage[i][j+1] \<ge> thr\<close>, \<open>Voltage[i][min(j + int(t_min_spike*(1/dt)), t_stop)] \<ge> thr\<close>
  and \<open>j*dt - t_last_spike > t_refractory\<close>, and an accepted \<open>j\<close> appends \<open>i\<close>, \<open>x[i]\<close>,
  \<open>j\<close>, \<open>t[j]\<close> to the four lists and sets \<open>t_last_spike = j*dt\<close>.
\<close>

theorem fl_spike_detection_refines_spec:
  assumes "fl_spike_detection ops Voltage t x list_to_parse thr dt t_start t_stop t_refractory
             t_min_spike = Inr out"
  shows "\<exists>inv_dt. (list_to_parse \<noteq> [] \<longrightarrow> fl_recip ops dt = Inr inv_dt) \<and>
           zip (fl_position out) (fl_time_index out) =
             spec_spikes ops (fl_int ops (fl_mul ops t_start inv_dt))
               (fl_int ops (fl_mul ops t_min_spike inv_dt)) Voltage list_to_parse thr dt t_start
               t_stop t_refractory \<and>
           length (fl_position out) = length (fl_time_index out) \<and>
           map Inr (fl_x_position out) = map (py_index x) (fl_position out) \<and>
           map Inr (fl_time out) = map (py_index t) (fl_time_index out)"
proof -
  from fl_spike_detection_recip[OF assms] obtain inv_dt where
    inv: "list_to_parse \<noteq> [] \<longrightarrow> fl_recip ops dt = Inr inv_dt" by blast
  let ?S = "spec_spikes ops (fl_int ops (fl_mul ops t_start inv_dt))
               (fl_int ops (fl_mul ops t_min_spike inv_dt)) Voltage list_to_parse thr dt t_start
               t_stop t_refractory"
  from fl_outer_loop_spec[OF assms[unfolded fl_spike_detection_def] inv]
  have e: "extends_by t x fl_empty_raster out ?S" .
  then have p: "fl_position out = map fst ?S" and k: "fl_time_index out = map snd ?S"
    and xs: "map Inr (fl_x_position out) = map (\<lambda>p. py_index x (fst p)) ?S"
    and ts: "map Inr (fl_time out) = map (\<lambda>p. py_index t (snd p)) ?S"
    by (simp_all add: extends_by_def fl_empty_raster_def)
  have "zip (fl_position out) (fl_time_index out) = ?S"
    unfolding p k by (simp add: zip_map_fst_snd)
  moreover have "length (fl_position out) = length (fl_time_index out)"
    unfolding p k by simp
  moreover have "map Inr (fl_x_position out) = map (py_index x) (fl_position out)"
    unfolding xs p by simp
  moreover have "map Inr (fl_time out) = map (py_index t) (fl_time_index out)"
    unfolding ts k by simp
  ultimately show ?thesis using inv by blast
qed

theorem fl_spike_detection_refines_spec_witness:
  "fl_spike_detection exact_ops [[-70, -70, 10, 10, 10, -70]] [0, 1/2, 1, 3/2, 2, 5/2] [250] [0]
     (-20) (1/2) 0 5 2 (7/8)
   = Inr \<lparr>fl_position = [0], fl_x_position = [250], fl_time_index = [1], fl_time = [1/2]\<rparr>
   \<and> fl_recip exact_ops (1/2) = Inr 2
   \<and> fl_int exact_ops (fl_mul exact_ops 0 2) = 0
   \<and> fl_int exact_ops (fl_mul exact_ops (7/8) 2) = 1
   \<and> spec_spikes exact_ops 0 1 [[-70, -70, 10, 10, 10, -70]] [0] (-20) (1/2) 0 5 2 = [(0, 1)]"
proof -
  have e: "fl_spike_detection exact_ops [[-70, -70, 10, 10, 10, -70]] [0, 1/2, 1, 3/2, 2, 5/2]
     [250] [0] (-20) (1/2) 0 5 2 (7/8)
   = Inr \<lparr>fl_position = [0], fl_x_position = [250], fl_time_index = [1], fl_time = [1/2]\<rparr>"
    by (simp add: fl_spike_detection_def fl_scan_row_def exact_ops_def py_div_def ebind_def
        py_int_def py_range_def upto_rec1 fl_detect_step_def fl_spike_condition_def py_index_def
        fl_empty_raster_def)
  have r: "fl_recip exact_ops (1/2) = Inr 2" by (simp add: exact_ops_def py_div_def)
  have a: "fl_int exact_ops (fl_mul exact_ops 0 2) = 0"
    and b: "fl_int exact_ops (fl_mul exact_ops (7/8) 2) = 1"
    by (simp_all add: exact_ops_def py_int_def)
  from fl_spike_detection_refines_spec[OF e] obtain inv_dt where
    i: "fl_recip exact_ops (1/2) = Inr inv_dt"
    and z: "zip [0] [1] = spec_spikes exact_ops (fl_int exact_ops (fl_mul exact_ops 0 inv_dt))
               (fl_int exact_ops (fl_mul exact_ops (7/8) inv_dt)) [[-70, -70, 10, 10, 10, -70]]
               [0] (-20) (1/2) 0 5 2"
    by auto
  from i r have "inv_dt = 2" by simp
  with z a b have "spec_spikes exact_ops 0 1 [[-70, -70, 10, 10, 10, -70]] [0] (-20) (1/2) 0 5 2
                   = [(0, 1)]" by simp
  with e r a b show ?thesis by simp
qed

text \<open>
  With \<open>round\<close>, as the specification states it, the claim fails.  The values are binary
  fractions, on which double arithmetic is exact: \<open>dt = 0.5\<close>, \<open>t_min_spike = 0.875\<close>.  The
  code looks \<^verbatim>\<open>int(0.875*(1/0.5)) = int(1.75) = 1\<close> sample ahead and records the crossing at
  \<open>j = 1\<close>, which stays above the threshold for one sample; \<open>round(1.75) = 2\<close> samples
  ahead the voltage is below the threshold again, and the scan of the specification
  records nothing.
\<close>

theorem spike_detection_round_counterexample:
  "fl_spike_detection exact_ops [[-70, -70, 10, -70, -70, -70]] [0, 1/2, 1, 3/2, 2, 5/2] [250] [0]
     (-20) (1/2) 0 5 2 (7/8)
   = Inr \<lparr>fl_position = [0], fl_x_position = [250], fl_time_index = [1], fl_time = [1/2]\<rparr>
   \<and> spec_spikes exact_ops (round (0 / (1/2 :: real))) (round ((7/8) / (1/2 :: real)))
       [[-70, -70, 10, -70, -70, -70]] [0] (-20) (1/2) 0 5 2 = []"
proof -
  have "fl_spike_detection exact_ops [[-70, -70, 10, -70, -70, -70]] [0, 1/2, 1, 3/2, 2, 5/2]
     [250] [0] (-20) (1/2) 0 5 2 (7/8)
   = Inr \<lparr>fl_position = [0], fl_x_position = [250], fl_time_index = [1], fl_time = [1/2]\<rparr>"
    by (simp add: fl_spike_detection_def fl_scan_row_def exact_ops_def py_div_def ebind_def
        py_int_def py_range_def upto_rec1 fl_detect_step_def fl_spike_condition_def py_index_def
        fl_empty_raster_def)
  moreover have "spec_spikes exact_ops (round (0 / (1/2 :: real))) (round ((7/8) / (1/2 :: real)))
       [[-70, -70, 10, -70, -70, -70]] [0] (-20) (1/2) 0 5 2 = []"
    by (simp add: spec_spikes_def spec_row_spikes_def spec_accepts_def spec_sample_def
        exact_ops_def py_index_def round_def upto_rec1)
  ultimately show ?thesis by simp
qed

subsection \<open>Spike detector: refractory invariant\<close>

lemma spec_scan_subset: "set (spec_scan ops accepts dt js t_prev) \<subseteq> set js"
  by (induction js arbitrary: t_prev) auto

lemma spec_scan_successively:
  assumes "\<And>j t_prev. accepts j t_prev \<Longrightarrow>
             fl_lt ops t_refractory (fl_sub ops (fl_mul ops (fl_of_int ops j) dt) t_prev)"
    and "sorted_wrt (<) js"
  shows "successively
           (\<lambda>a b. a < b \<and> fl_lt ops t_refractory
                     (fl_sub ops (fl_mul ops (fl_of_int ops b) dt) (fl_mul ops (fl_of_int ops a) dt)))
           (spec_scan ops accepts dt js t_prev)
         \<and> (spec_scan ops accepts dt js t_prev \<noteq> [] \<longrightarrow>
              fl_lt ops t_refractory
                (fl_sub ops (fl_mul ops (fl_of_int ops (hd (spec_scan ops accepts dt js t_prev))) dt)
                   t_prev))"
  using assms(2)
proof (induction js arbitrary: t_prev)
  case Nil
  then show ?case by simp
next
  case (Cons j js)
  then have sorted: "sorted_wrt (<) js" and lt: "\<forall>k\<in>set js. j < k" by auto
  show ?case
  proof (cases "accepts j t_prev")
    case False
    then show ?thesis using Cons.IH[OF sorted, of t_prev] by simp
  next
    case True
    let ?rest = "spec_scan ops accepts dt js (fl_mul ops (fl_of_int ops j) dt)"
    have "j < hd ?rest" if ne: "?rest \<noteq> []"
    proof -
      from hd_in_set[OF ne] spec_scan_subset[of ops accepts dt js "fl_mul ops (fl_of_int ops j) dt"]
      have "hd ?rest \<in> set js" by blast
      with lt show ?thesis by blast
    qed
    then show ?thesis
      using True Cons.IH[OF sorted, of "fl_mul ops (fl_of_int ops j) dt"] assms(1)[OF True]
      by (auto simp: successively_Cons)
  qed
qed

lemma spec_accepts_refractory:
  "spec_accepts ops ahead Voltage thr dt t_stop t_refractory i j t_prev
   \<Longrightarrow> fl_lt ops t_refractory (fl_sub ops (fl_mul ops (fl_of_int ops j) dt) t_prev)"
  by (simp add: spec_accepts_def)

lemma spec_row_spikes_successively:
  "successively
     (\<lambda>a b. a < b \<and> fl_lt ops t_refractory
               (fl_sub ops (fl_mul ops (fl_of_int ops b) dt) (fl_mul ops (fl_of_int ops a) dt)))
     (spec_row_spikes ops first ahead Voltage thr dt t_start t_stop t_refractory i)"
  unfolding spec_row_spikes_def
  using spec_scan_successively[where
      accepts = "spec_accepts ops ahead Voltage thr dt t_stop t_refractory i"
      and ops = ops and dt = dt and t_refractory = t_refractory
      and js = "[first..t_stop - 1]" and t_prev = "fl_sub ops t_start t_refractory",
      OF spec_accepts_refractory]
  by simp

lemma spec_spikes_rows:
  "map snd (concat (map (\<lambda>i. map (Pair i) (row i)) is)) = concat (map row is)
   \<and> map fst (concat (map (\<lambda>i. map (Pair i) (row i)) is))
     = concat (map2 (\<lambda>i seg. replicate (length seg) i) is (map row is))"
  by (induction "is") (simp_all add: comp_def map_replicate_const)

text \<open>
  Claim C2 (amended).  For every output of the detector, in whatever arithmetic it
  computes, the recorded sample indices split into one segment per entry of
  \<open>list_to_parse\<close>, in order; on the segment of a scanned row the indices are strictly
  increasing, and two consecutive recorded indices \<open>j1 < j2\<close> passed the test of the code,
  \<open>j2*dt - j1*dt > t_refractory\<close> as the machine evaluates it.  The recorded time of an
  index \<open>j\<close> is \<open>t[j]\<close>, read with Python's indexing; the times themselves are not
  compared.
\<close>

theorem fl_spike_detection_refractory:
  assumes "fl_spike_detection ops Voltage t x list_to_parse thr dt t_start t_stop t_refractory
             t_min_spike = Inr out"
  shows "\<exists>segs. length segs = length list_to_parse
          \<and> fl_time_index out = concat segs
          \<and> fl_position out = concat (map2 (\<lambda>i seg. replicate (length seg) i) list_to_parse segs)
          \<and> map Inr (fl_time out) = map (py_index t) (fl_time_index out)
          \<and> (\<forall>seg\<in>set segs. successively
                (\<lambda>a b. a < b \<and> fl_lt ops t_refractory
                   (fl_sub ops (fl_mul ops (fl_of_int ops b) dt) (fl_mul ops (fl_of_int ops a) dt)))
                seg)"
proof -
  from fl_spike_detection_recip[OF assms] obtain inv_dt where
    inv: "list_to_parse \<noteq> [] \<longrightarrow> fl_recip ops dt = Inr inv_dt" by blast
  define row where "row = spec_row_spikes ops (fl_int ops (fl_mul ops t_start inv_dt))
               (fl_int ops (fl_mul ops t_min_spike inv_dt)) Voltage thr dt t_start t_stop
               t_refractory"
  let ?S = "concat (map (\<lambda>i. map (Pair i) (row i)) list_to_parse)"
  from fl_outer_loop_spec[OF assms[unfolded fl_spike_detection_def] inv]
  have e: "extends_by t x fl_empty_raster out ?S"
    by (simp add: spec_spikes_def row_def)
  then have p: "fl_position out = map fst ?S" and k: "fl_time_index out = map snd ?S"
    and ts: "map Inr (fl_time out) = map (\<lambda>p. py_index t (snd p)) ?S"
    by (simp_all add: extends_by_def fl_empty_raster_def)
  have "fl_time_index out = concat (map row list_to_parse)"
    unfolding k using spec_spikes_rows[of row list_to_parse] by simp
  moreover have "fl_position out
      = concat (map2 (\<lambda>i seg. replicate (length seg) i) list_to_parse (map row list_to_parse))"
    unfolding p using spec_spikes_rows[of row list_to_parse] by simp
  moreover have "map Inr (fl_time out) = map (py_index t) (fl_time_index out)"
    unfolding ts k by simp
  moreover have "\<forall>seg\<in>set (map row list_to_parse). successively
                (\<lambda>a b. a < b \<and> fl_lt ops t_refractory
                   (fl_sub ops (fl_mul ops (fl_of_int ops b) dt) (fl_mul ops (fl_of_int ops a) dt)))
                seg"
    by (auto simp: row_def spec_row_spikes_successively)
  moreover have "length (map row list_to_parse) = length list_to_parse" by simp
  ultimately show ?thesis by blast
qed

theorem fl_spike_detection_refractory_witness:
  "fl_spike_detection exact_ops [[-1, -1, 1, 1, -1, -1, 1, 1]] [0, 1, 2, 3, 4, 5, 6, 7] [250] [0]
     0 1 0 7 2 1
   = Inr \<lparr>fl_position = [0, 0], fl_x_position = [250, 250], fl_time_index = [1, 5],
          fl_time = [1, 5]\<rparr>
   \<and> (\<exists>segs. length segs = length [0 :: int]
          \<and> [1, 5] = concat segs
          \<and> [0, 0] = concat (map2 (\<lambda>i seg. replicate (length seg) i) [0 :: int] segs)
          \<and> (\<forall>seg\<in>set segs. successively
                (\<lambda>a b. a < b \<and> (2 :: real) < real_of_int b * 1 - real_of_int a * 1) seg))"
proof -
  have e: "fl_spike_detection exact_ops [[-1, -1, 1, 1, -1, -1, 1, 1]] [0, 1, 2, 3, 4, 5, 6, 7]
     [250] [0] 0 1 0 7 2 1
   = Inr \<lparr>fl_position = [0, 0], fl_x_position = [250, 250], fl_time_index = [1, 5],
          fl_time = [1, 5]\<rparr>"
    by (simp add: fl_spike_detection_def fl_scan_row_def exact_ops_def py_div_def ebind_def
        py_int_def py_range_def upto_rec1 fl_detect_step_def fl_spike_condition_def py_index_def
        fl_empty_raster_def)
  from fl_spike_detection_refractory[OF e] obtain segs where
    s: "length segs = length [0 :: int]" "[1, 5] = concat segs"
      "[0, 0] = concat (map2 (\<lambda>i seg. replicate (length seg) i) [0 :: int] segs)"
      "\<forall>seg\<in>set segs. successively
         (\<lambda>a b. a < b \<and> fl_lt exact_ops (2 :: real)
            (fl_sub exact_ops (fl_mul exact_ops (fl_of_int exact_ops b) 1)
               (fl_mul exact_ops (fl_of_int exact_ops a) 1))) seg"
    by auto
  have "\<exists>segs. length segs = length [0 :: int]
          \<and> [1, 5] = concat segs
          \<and> [0, 0] = concat (map2 (\<lambda>i seg. replicate (length seg) i) [0 :: int] segs)
          \<and> (\<forall>seg\<in>set segs. successively
                (\<lambda>a b. a < b \<and> (2 :: real) < real_of_int b * 1 - real_of_int a * 1) seg)"
    by (rule exI[of _ segs]) (use s in \<open>simp add: exact_ops_def\<close>)
  with e show ?thesis by simp
qed

text \<open>
  The claim as stated fails.  With \<open>t_start = -1.5\<close> and \<open>dt = 1\<close> the scan starts at
  \<^verbatim>\<open>int(-1.5) = -1\<close>; the index \<open>-1\<close> addresses the last sample, a spike is recorded there
  with the time \<open>t[-1] = 3\<close>, and the next spike of the row, at \<open>j = 1\<close>, has the time
  \<open>t[1] = 1\<close>: the recorded times of the row are 3 and 1.
\<close>

theorem spike_times_decrease_counterexample:
  "fl_spike_detection exact_ops [[1, -1, 1, -1]] [0, 1, 2, 3] [250] [0] 0 1 (-3/2) 3 1 1
   = Inr \<lparr>fl_position = [0, 0], fl_x_position = [250, 250], fl_time_index = [-1, 1],
          fl_time = [3, 1]\<rparr>"
  by (simp add: fl_spike_detection_def fl_scan_row_def exact_ops_def py_div_def ebind_def
      py_int_def py_range_def upto_rec1 fl_detect_step_def fl_spike_condition_def py_index_def
      fl_empty_raster_def)

subsection \<open>The selection of speed in closed form\<close>

lemma intersect1d_sorted_distinct:
  assumes "sorted a" and "distinct a"
  shows "intersect1d a b = filter (\<lambda>k. k \<in> set b) a"
proof -
  have "distinct (filter (\<lambda>k. k \<in> set b) a)" using assms(2) by simp
  moreover have "sorted (filter (\<lambda>k. k \<in> set b) a)"
    using assms(1) by (simp add: sorted_filter[where f = id, simplified])
  ultimately show ?thesis
    by (simp add: intersect1d_def distinct_remdups_id sorted_sort_id)
qed

lemma speed_selection_closed:
  assumes "length time = length x_position"
  shows "speed_selection time x_position t_start t_stop x_start x_stop
         = Inr (speed_selected time x_position t_start t_stop x_start x_stop)"
proof -
  define gt where "gt = filter (\<lambda>k. t_start < time ! k \<and> time ! k < t_stop) [0..<length time]"
  have good: "intersect1d (np_where (\<lambda>v. v > t_start) time) (np_where (\<lambda>v. v < t_stop) time) = gt"
    by (simp add: intersect1d_where gt_def)
  have sub: "np_take x_position gt = Inr (map (\<lambda>k. x_position ! k) gt)"
    using assms by (auto simp: np_take_def gt_def list_all_iff)
  define sub_x where "sub_x = map (\<lambda>k. x_position ! k) gt"
  have len: "length sub_x = length gt" by (simp add: sub_x_def)
  have gp: "intersect1d (np_where (\<lambda>v. v \<ge> x_start) sub_x) (np_where (\<lambda>v. v \<le> x_stop) sub_x)
            = filter (\<lambda>p. x_start \<le> sub_x ! p \<and> sub_x ! p \<le> x_stop) [0..<length gt]"
    by (simp add: intersect1d_where len)
  have "intersect1d (filter (\<lambda>p. x_start \<le> sub_x ! p \<and> sub_x ! p \<le> x_stop) [0..<length gt]) gt
        = filter (\<lambda>p. p \<in> set gt) (filter (\<lambda>p. x_start \<le> sub_x ! p \<and> sub_x ! p \<le> x_stop)
                                        [0..<length gt])"
    by (rule intersect1d_sorted_distinct)
       (simp_all add: sorted_filter[where f = id, simplified])
  also have "\<dots> = filter (\<lambda>p. p \<in> set gt \<and> x_start \<le> x_position ! (gt ! p)
                            \<and> x_position ! (gt ! p) \<le> x_stop) [0..<length gt]"
    by (auto simp: sub_x_def intro: filter_cong)
  finally have fin: "intersect1d (filter (\<lambda>p. x_start \<le> sub_x ! p \<and> sub_x ! p \<le> x_stop)
                                    [0..<length gt]) gt
        = speed_selected time x_position t_start t_stop x_start x_stop"
    by (simp add: speed_selected_def gt_def Let_def)
  show ?thesis
    unfolding speed_selection_def
    by (simp add: Let_def good sub ebind_def gp[unfolded sub_x_def] fin[unfolded sub_x_def])
qed

lemma speed_selected_in_range:
  "set (speed_selected time x_position t_start t_stop x_start x_stop) \<subseteq> {0..<length time}"
  by (auto simp: speed_selected_def Let_def)

subsection \<open>Defaults of the queries\<close>

lemma default_key_prefix_explicit:
  assumes "my_dict ''V_mem_filtered_raster_position'' \<noteq> None \<and> prefix = ''V_mem_filtered_raster''
         \<or> my_dict ''V_mem_filtered_raster_position'' = None
           \<and> my_dict ''V_mem_raster_position'' \<noteq> None \<and> prefix = ''V_mem_raster''"
  shows "default_key_prefix my_dict = Some prefix"
  using assms by (auto simp: default_key_prefix_def)

lemma resolve_t_stop_explicit:
  assumes "t_stop = 0 \<longrightarrow> my_dict ''tstop'' = Some (Float tstop)"
  shows "resolve_t_stop my_dict t_stop = Inr (if t_stop = 0 then tstop else t_stop)"
  using assms by (simp add: resolve_t_stop_def get_float_def dict_get_def ebind_def)

lemma resolve_t_start_explicit:
  assumes "t_start = 0 \<longrightarrow>
             my_dict ''intra_stim_starts'' = None \<and> stims = []
           \<or> my_dict ''intra_stim_starts'' = Some (PyList stims)"
  shows "resolve_t_start my_dict t_start
         = Inr (if t_start = 0 \<and> stims \<noteq> [] then hd stims else t_start)"
  using assms by (cases stims) (auto simp: resolve_t_start_def)

subsection \<open>Origin query: the returned events\<close>

text \<open>
  Claim C3 (amended).  The origin query selects the events whose time is strictly inside
  the time window (\<open>t_stop = 0\<close> standing for \<^verbatim>\<open>tstop\<close>) and whose coordinate is strictly
  inside the bounds that are set.  When at least one event is selected it returns exactly
  the selected events whose time is the minimum over the selection, with their
  coordinates, all ties included; when none is selected \<^verbatim>\<open>np.amin\<close> raises \<^verbatim>\<open>ValueError\<close>
  and nothing is returned.  The raster keys are those of \<^verbatim>\<open>my_key\<close> when given, else the
  filtered ones when present, else the raw ones.
\<close>

theorem find_spike_origin_earliest:
  assumes "my_key = Some prefix
         \<or> my_key = None \<and> my_dict ''V_mem_filtered_raster_position'' \<noteq> None
           \<and> prefix = ''V_mem_filtered_raster''
         \<or> my_key = None \<and> my_dict ''V_mem_filtered_raster_position'' = None
           \<and> my_dict ''V_mem_raster_position'' \<noteq> None \<and> prefix = ''V_mem_raster''"
    and "my_dict (prefix @ ''_time'') = Some (Array time)"
    and "my_dict (prefix @ ''_x_position'') = Some (Array x_position)"
    and "length time = length x_position"
    and "t_stop = 0 \<longrightarrow> my_dict ''tstop'' = Some (Float tstop)"
    and "selected = window_events time x_position t_start (if t_stop = 0 then tstop else t_stop)
                      x_min x_max"
  shows "find_spike_origin my_dict my_key t_start t_stop x_min x_max =
           (if selected = [] then Inl ValueError
            else Inr (Origin (map fst (earliest_events selected))
                             (map snd (earliest_events selected))))"
proof -
  have key: "(case my_key of None \<Rightarrow> default_key_prefix my_dict | Some k \<Rightarrow> Some k) = Some prefix"
    using assms(1) by (auto simp: default_key_prefix_def)
  have stop: "resolve_t_stop my_dict t_stop = Inr (if t_stop = 0 then tstop else t_stop)"
    using assms(5) by (rule resolve_t_stop_explicit)
  note st = find_spike_origin_stages[OF key assms(2,3,4) stop]
  show ?thesis
  proof (cases "selected = []")
    case True
    then show ?thesis unfolding st assms(6)[symmetric] by (simp add: ebind_def)
  next
    case False
    then show ?thesis unfolding st assms(6)[symmetric] earliest_events_def
      by (simp add: py_min_map_fst ebind_def)
  qed
qed

theorem find_spike_origin_earliest_witness:
  "window_events [2, 1, 3, 1] [0, 1000, 2000, 3000] 0 10 (Some 500) None
       = [(1, 1000), (3, 2000), (1, 3000)]
   \<and> find_spike_origin
       [''tstop'' \<mapsto> Float 10,
        ''V_mem_raster_position'' \<mapsto> IntArray [0, 1, 2, 3],
        ''V_mem_raster_x_position'' \<mapsto> Array [0, 1000, 2000, 3000],
        ''V_mem_raster_time'' \<mapsto> Array [2, 1, 3, 1]]
       None 0 0 (Some 500) None
     = Inr (Origin [1, 1] [1000, 3000])
   \<and> find_spike_origin
       [''tstop'' \<mapsto> Float 10,
        ''V_mem_raster_position'' \<mapsto> IntArray [0, 1, 2, 3],
        ''V_mem_raster_x_position'' \<mapsto> Array [0, 1000, 2000, 3000],
        ''V_mem_raster_time'' \<mapsto> Array [2, 1, 3, 1]]
       None 0 (5/2) (Some 500) None
     = Inr (Origin [1, 1] [1000, 3000])"
proof -
  let ?d = "[''tstop'' \<mapsto> Float 10,
        ''V_mem_raster_position'' \<mapsto> IntArray [0, 1, 2, 3],
        ''V_mem_raster_x_position'' \<mapsto> Array [0, 1000, 2000, 3000],
        ''V_mem_raster_time'' \<mapsto> Array [2, 1, 3, 1 :: real]] :: results"
  have k: "None = Some ''V_mem_raster''
         \<or> None = (None :: string option) \<and> ?d ''V_mem_filtered_raster_position'' \<noteq> None
           \<and> ''V_mem_raster'' = ''V_mem_filtered_raster''
         \<or> None = (None :: string option) \<and> ?d ''V_mem_filtered_raster_position'' = None
           \<and> ?d ''V_mem_raster_position'' \<noteq> None \<and> ''V_mem_raster'' = ''V_mem_raster''"
    by simp
  have t: "?d (''V_mem_raster'' @ ''_time'') = Some (Array [2, 1, 3, 1])" by simp
  have x: "?d (''V_mem_raster'' @ ''_x_position'') = Some (Array [0, 1000, 2000, 3000])" by simp
  have l: "length [2, 1, 3, 1 :: real] = length [0, 1000, 2000, 3000 :: real]" by simp
  have s0: "(0 :: real) = 0 \<longrightarrow> ?d ''tstop'' = Some (Float 10)" by simp
  have s1: "(5/2 :: real) = 0 \<longrightarrow> ?d ''tstop'' = Some (Float 10)" by simp
  have w: "window_events [2, 1, 3, 1] [0, 1000, 2000, 3000] 0 10 (Some 500) None
       = [(1, 1000), (3, 2000), (1, 3000)]"
    by (simp add: window_events_def within_bounds_def)
  have w1: "window_events [2, 1, 3, 1] [0, 1000, 2000, 3000] 0 (5/2) (Some 500) None
       = [(1, 1000), (1, 3000)]"
    by (simp add: window_events_def within_bounds_def)
  note ra = find_spike_origin_earliest[OF k t x l s0 refl, of 0 "Some 500" None]
  note rb = find_spike_origin_earliest[OF k t x l s1 refl, of 0 "Some 500" None]
  have a: "find_spike_origin ?d None 0 0 (Some 500) None = Inr (Origin [1, 1] [1000, 3000])"
    unfolding ra by (simp add: w earliest_events_def)
  have b: "find_spike_origin ?d None 0 (5/2) (Some 500) None = Inr (Origin [1, 1] [1000, 3000])"
    unfolding rb by (simp add: w1 earliest_events_def)
  from w a b show ?thesis by simp
qed

text \<open>
  The claim as stated fails where no event is selected: four events between 1 and 4 ms,
  a time window from 5 ms to \<^verbatim>\<open>tstop\<close> = 10 ms; the query returns no set of events, it
  raises.
\<close>

theorem find_spike_origin_empty_counterexample:
  "find_spike_origin
     [''tstop'' \<mapsto> Float 10,
      ''V_mem_raster_position'' \<mapsto> IntArray [0, 1, 2, 3],
      ''V_mem_raster_x_position'' \<mapsto> Array [0, 1000, 2000, 4000],
      ''V_mem_raster_time'' \<mapsto> Array [1, 2, 3, 4]]
     None 5 0 None None
   = Inl ValueError"
  by (simp add: find_spike_origin_def resolve_t_stop_def get_float_def get_array_def dict_get_def
      ebind_def default_key_prefix_def np_where_def intersect1d_def np_take_def)

subsection \<open>Conduction velocity on a selection without two distinct times\<close>

lemma np_take_in_range:
  assumes "set idx \<subseteq> {0..<length xs}"
  shows "np_take xs idx = Inr (map (\<lambda>k. xs ! k) idx)"
  using assms by (auto simp: np_take_def list_all_iff)

lemma speed_stages:
  assumes key: "my_dict ''V_mem_filtered_raster_position'' \<noteq> None
                \<and> prefix = ''V_mem_filtered_raster''
              \<or> my_dict ''V_mem_filtered_raster_position'' = None
                \<and> my_dict ''V_mem_raster_position'' \<noteq> None \<and> prefix = ''V_mem_raster''"
    and time: "my_dict (prefix @ ''_time'') = Some (Array time)"
    and xpos: "my_dict (prefix @ ''_x_position'') = Some (Array x_position)"
    and len: "length time = length x_position"
    and tstop: "t_stop = 0 \<longrightarrow> my_dict ''tstop'' = Some (Float tstop)"
    and stim: "t_start = 0 \<longrightarrow>
                 my_dict ''intra_stim_starts'' = None \<and> stims = []
               \<or> my_dict ''intra_stim_starts'' = Some (PyList stims)"
    and l: "x_start = 0 \<or> x_stop = 0 \<longrightarrow> my_dict ''L'' = Some (Float l)"
    and sel: "selected = speed_selected time x_position
                (if t_start = 0 \<and> stims \<noteq> [] then hd stims else t_start)
                (if t_stop = 0 then tstop else t_stop)
                (if x_start = 0 then x_start else if x_stop = 0 then l else x_start)
                (if x_start = 0 then l else x_stop)"
  shows "speed my_dict None t_start t_stop x_start x_stop =
           ebind (speed_value (map (\<lambda>k. time ! k) selected) (map (\<lambda>k. x_position ! k) selected))
             (\<lambda>v. Inr (Speed v))"
proof -
  define t_begin where "t_begin = (if t_start = 0 \<and> stims \<noteq> [] then hd stims else t_start)"
  define t_end where "t_end = (if t_stop = 0 then tstop else t_stop)"
  define x_lo where "x_lo = (if x_start = 0 then x_start else if x_stop = 0 then l else x_start)"
  define x_hi where "x_hi = (if x_start = 0 then l else x_stop)"
  have stop: "resolve_t_stop my_dict t_stop = Inr t_end"
    unfolding t_end_def using tstop by (rule resolve_t_stop_explicit)
  have start: "resolve_t_start my_dict t_start = Inr t_begin"
    unfolding t_begin_def using stim by (rule resolve_t_start_explicit)
  have pre: "default_key_prefix my_dict = Some prefix"
    using key by (rule default_key_prefix_explicit)
  have ga: "get_array my_dict (prefix @ ''_time'') = Inr time"
    "get_array my_dict (prefix @ ''_x_position'') = Inr x_position"
    by (simp_all add: get_array_def dict_get_def ebind_def time xpos)
  have xw: "(if x_start = 0 then ebind (get_float my_dict ''L'') (\<lambda>l. Inr (x_start, l))
             else if x_stop = 0 then ebind (get_float my_dict ''L'') (\<lambda>l. Inr (l, x_stop))
             else Inr (x_start, x_stop)) = Inr (x_lo, x_hi)"
    using l by (auto simp: x_lo_def x_hi_def get_float_def dict_get_def ebind_def)
  have sel': "selected = speed_selected time x_position t_begin t_end x_lo x_hi"
    unfolding sel t_begin_def t_end_def x_lo_def x_hi_def ..
  have in_t: "set selected \<subseteq> {0..<length time}"
    unfolding sel' by (rule speed_selected_in_range)
  then have in_x: "set selected \<subseteq> {0..<length x_position}" using len by simp
  note tk = np_take_in_range[OF in_t] np_take_in_range[OF in_x]
  note cl = speed_selection_closed[OF len, of t_begin t_end x_lo x_hi, folded sel']
  show ?thesis
    unfolding speed_def stop start xw
    by (simp add: pre ga ebind_def cl tk)
qed

text \<open>
  Claim C6 (amended).  When the events that \<^verbatim>\<open>speed\<close> selects have fewer than two
  distinct times, \<^verbatim>\<open>speed\<close> returns no finite value, and no result of its own for the
  condition either: without any selected event \<^verbatim>\<open>np.argmax\<close> raises \<^verbatim>\<open>ValueError\<close>, and
  with selected events that share one time the quotient is \<open>0/0\<close> and \<^verbatim>\<open>speed\<close> returns
  \<open>nan\<close>.  This covers every window with fewer than two distinct event times inside
  the time window (\<open>speed_few_times_in_window\<close>).
\<close>

theorem speed_degenerate:
  assumes "my_dict ''V_mem_filtered_raster_position'' \<noteq> None
           \<and> prefix = ''V_mem_filtered_raster''
         \<or> my_dict ''V_mem_filtered_raster_position'' = None
           \<and> my_dict ''V_mem_raster_position'' \<noteq> None \<and> prefix = ''V_mem_raster''"
    and "my_dict (prefix @ ''_time'') = Some (Array time)"
    and "my_dict (prefix @ ''_x_position'') = Some (Array x_position)"
    and "length time = length x_position"
    and "t_stop = 0 \<longrightarrow> my_dict ''tstop'' = Some (Float tstop)"
    and "t_start = 0 \<longrightarrow>
           my_dict ''intra_stim_starts'' = None \<and> stims = []
         \<or> my_dict ''intra_stim_starts'' = Some (PyList stims)"
    and "x_start = 0 \<or> x_stop = 0 \<longrightarrow> my_dict ''L'' = Some (Float l)"
    and "selected = speed_selected time x_position
           (if t_start = 0 \<and> stims \<noteq> [] then hd stims else t_start)
           (if t_stop = 0 then tstop else t_stop)
           (if x_start = 0 then x_start else if x_stop = 0 then l else x_start)
           (if x_start = 0 then l else x_stop)"
    and "card (set (map (\<lambda>k. time ! k) selected)) < 2"
  shows "speed my_dict None t_start t_stop x_start x_stop =
           (if selected = [] then Inl ValueError else Inr (Speed NaN))"
proof -
  have "length (map (\<lambda>k. x_position ! k) selected) = length (map (\<lambda>k. time ! k) selected)"
    by simp
  from speed_value_degenerate[OF this assms(9)]
  have "speed_value (map (\<lambda>k. time ! k) selected) (map (\<lambda>k. x_position ! k) selected)
        = (if selected = [] then Inl ValueError else Inr NaN)" by simp
  then show ?thesis
    unfolding speed_stages[OF assms(1-8)] by (simp add: ebind_def)
qed

lemma speed_few_times_in_window:
  assumes "card (set (filter (\<lambda>v. t_start < v \<and> v < t_stop) time)) < 2"
  shows "card (set (map (\<lambda>k. time ! k)
                 (speed_selected time x_position t_start t_stop x_start x_stop))) < 2"
proof -
  have "set (map (\<lambda>k. time ! k) (speed_selected time x_position t_start t_stop x_start x_stop))
        \<subseteq> set (filter (\<lambda>v. t_start < v \<and> v < t_stop) time)"
    by (auto simp: speed_selected_def Let_def)
  then have "card (set (map (\<lambda>k. time ! k)
                 (speed_selected time x_position t_start t_stop x_start x_stop)))
        \<le> card (set (filter (\<lambda>v. t_start < v \<and> v < t_stop) time))"
    by (intro card_mono) simp_all
  with assms show ?thesis by simp
qed

theorem speed_degenerate_witness:
  "speed_selected [1, 1, 1] [0, 1000, 2000] 0 10 0 5000 = [0, 1, 2]
   \<and> card (set (map (\<lambda>k. [1, 1, 1 :: real] ! k) [0, 1, 2])) < 2
   \<and> speed
       [''tstop'' \<mapsto> Float 10, ''L'' \<mapsto> Float 5000,
        ''V_mem_raster_position'' \<mapsto> IntArray [0, 1, 2],
        ''V_mem_raster_x_position'' \<mapsto> Array [0, 1000, 2000],
        ''V_mem_raster_time'' \<mapsto> Array [1, 1, 1]]
       None 0 0 0 0
     = Inr (Speed NaN)"
proof -
  let ?d = "[''tstop'' \<mapsto> Float 10, ''L'' \<mapsto> Float 5000,
        ''V_mem_raster_position'' \<mapsto> IntArray [0, 1, 2],
        ''V_mem_raster_x_position'' \<mapsto> Array [0, 1000, 2000],
        ''V_mem_raster_time'' \<mapsto> Array [1, 1, 1 :: real]] :: results"
  have k: "?d ''V_mem_filtered_raster_position'' \<noteq> None
           \<and> ''V_mem_raster'' = ''V_mem_filtered_raster''
         \<or> ?d ''V_mem_filtered_raster_position'' = None
           \<and> ?d ''V_mem_raster_position'' \<noteq> None \<and> ''V_mem_raster'' = ''V_mem_raster''"
    by simp
  have t: "?d (''V_mem_raster'' @ ''_time'') = Some (Array [1, 1, 1])" by simp
  have x: "?d (''V_mem_raster'' @ ''_x_position'') = Some (Array [0, 1000, 2000])" by simp
  have l: "length [1, 1, 1 :: real] = length [0, 1000, 2000 :: real]" by simp
  have s: "(0 :: real) = 0 \<longrightarrow> ?d ''tstop'' = Some (Float 10)" by simp
  have i: "(0 :: real) = 0 \<longrightarrow>
             ?d ''intra_stim_starts'' = None \<and> ([] :: real list) = []
           \<or> ?d ''intra_stim_starts'' = Some (PyList [])" by simp
  have f: "(0 :: real) = 0 \<or> (0 :: real) = 0 \<longrightarrow> ?d ''L'' = Some (Float 5000)" by simp
  have sel: "speed_selected [1, 1, 1] [0, 1000, 2000] 0 10 0 5000 = [0, 1, 2]"
    by (simp add: speed_selected_def)
  have e: "[0, 1, 2] = speed_selected [1, 1, 1] [0, 1000, 2000]
           (if (0 :: real) = 0 \<and> ([] :: real list) \<noteq> [] then hd [] else 0)
           (if (0 :: real) = 0 then 10 else 0)
           (if (0 :: real) = 0 then 0 else if (0 :: real) = 0 then 5000 else 0)
           (if (0 :: real) = 0 then 5000 else 0)"
    by (simp add: sel)
  have c: "card (set (map (\<lambda>k. [1, 1, 1 :: real] ! k) [0, 1, 2])) < 2" by simp
  note r = speed_degenerate[OF k t x l s i f e c]
  have "speed ?d None 0 0 0 0 = Inr (Speed NaN)"
    unfolding r by simp
  with sel c show ?thesis by simp
qed

subsection \<open>The detector in exact arithmetic\<close>

lemma exact_ops_simps:
  "fl_recip exact_ops = py_div 1"
  "fl_mul exact_ops = (\<lambda>a b. a * b)"
  "fl_sub exact_ops = (\<lambda>a b. a - b)"
  "fl_of_int exact_ops = real_of_int"
  "fl_int exact_ops = py_int"
  "fl_le exact_ops = (\<lambda>a b. a \<le> b)"
  "fl_lt exact_ops = (\<lambda>a b. a < b)"
  by (simp_all add: exact_ops_def)

lemma spike_condition_exact:
  "fl_spike_condition exact_ops Voltage thr dt t_stop t_refractory t_min_spike i j t_prev
   = spike_condition Voltage thr dt t_stop t_refractory t_min_spike i j t_prev"
  unfolding fl_spike_condition_def spike_condition_def exact_ops_simps ..

lemma detect_step_exact:
  "map_sum id (map_prod to_raster id)
     (fl_detect_step exact_ops Voltage t x thr dt t_stop t_refractory t_min_spike i j (r, t_prev))
   = detect_step Voltage t x thr dt t_stop t_refractory t_min_spike i j (to_raster r, t_prev)"
  unfolding fl_detect_step_def detect_step_def spike_condition_exact exact_ops_simps
  by (simp add: ebind_def to_raster_def split: sum.splits)

lemma for_each_simulation:
  assumes "\<And>a s. map_sum id conv (body a s) = body' a (conv s)"
  shows "map_sum id conv (for_each as body s) = for_each as body' (conv s)"
proof (induction as arbitrary: s)
  case Nil
  then show ?case by simp
next
  case (Cons a as)
  show ?case
  proof (cases "body a s")
    case (Inl e)
    with assms[of a s] have "body' a (conv s) = Inl e" by simp
    with Inl show ?thesis by simp
  next
    case (Inr s1)
    with assms[of a s] have "body' a (conv s) = Inr (conv s1)" by simp
    with Inr Cons.IH[of s1] show ?thesis by simp
  qed
qed

lemma scan_row_exact:
  "map_sum id to_raster
     (fl_scan_row exact_ops Voltage t x thr dt t_start t_stop t_refractory t_min_spike i r)
   = scan_row Voltage t x thr dt t_start t_stop t_refractory t_min_spike i (to_raster r)"
proof (cases "dt = 0")
  case True
  then show ?thesis
    by (simp add: fl_scan_row_def scan_row_def exact_ops_simps py_div_def ebind_def)
next
  case False
  have sim: "map_sum id (map_prod to_raster id)
       (for_each js (fl_detect_step exact_ops Voltage t x thr dt t_stop t_refractory t_min_spike i)
          (r, t_prev))
     = for_each js (detect_step Voltage t x thr dt t_stop t_refractory t_min_spike i)
          (to_raster r, t_prev)" for js t_prev
    using for_each_simulation[where conv = "map_prod to_raster id"
        and body = "fl_detect_step exact_ops Voltage t x thr dt t_stop t_refractory t_min_spike i"
        and body' = "detect_step Voltage t x thr dt t_stop t_refractory t_min_spike i"
        and s = "(r, t_prev)" and as = js]
      detect_step_exact[of Voltage t x thr dt t_stop t_refractory t_min_spike i]
    by auto
  show ?thesis
    using False sim[of "py_range (py_int (t_start * (1 / dt))) t_stop" "t_start - t_refractory"]
    by (auto simp: fl_scan_row_def scan_row_def exact_ops_simps py_div_def ebind_def Let_def
        split: sum.splits)
qed

text \<open>The detector of the bounds result is the model over the program's arithmetic,
  taken at the operations of the reals.\<close>

lemma spike_detection_exact:
  "map_sum id to_raster
     (fl_spike_detection exact_ops Voltage t x list_to_parse thr dt t_start t_stop t_refractory
        t_min_spike)
   = spike_detection Voltage t x list_to_parse thr dt t_start t_stop t_refractory t_min_spike"
proof -
  have "to_raster fl_empty_raster = empty_raster"
    by (simp add: to_raster_def fl_empty_raster_def empty_raster_def)
  with for_each_simulation[where conv = to_raster
      and body = "fl_scan_row exact_ops Voltage t x thr dt t_start t_stop t_refractory t_min_spike"
      and body' = "scan_row Voltage t x thr dt t_start t_stop t_refractory t_min_spike"
      and s = fl_empty_raster and as = list_to_parse, OF scan_row_exact]
  show ?thesis by (simp add: fl_spike_detection_def spike_detection_def)
qed

end
